theory Spec2Isabelle
  imports Complex_Main "HOL-Library.AList"
begin

section \<open>JavaScript values used by the ingestion and validation code\<close>

subsection \<open>Text\<close>

text \<open>
  A JavaScript string is modelled by its UTF-8 bytes, a \<open>string\<close>: an ASCII character
  is one byte, every other character is a sequence of two to four bytes, all of them
  \<open>0x80\<close> or above. The functions below read the bytes as the source reads the
  characters.
\<close>

definition isASCII :: "char \<Rightarrow> bool" where
  "isASCII c = ((of_char c :: int) < 128)"

definition toLowerChar :: "char \<Rightarrow> char" where
  "toLowerChar c =
     (case map_of (zip ''ABCDEFGHIJKLMNOPQRSTUVWXYZ'' ''abcdefghijklmnopqrstuvwxyz'') c of
        Some l \<Rightarrow> l
      | None \<Rightarrow> c)"

text \<open>
  \<open>s.toLowerCase()\<close>, as far as a comparison with ASCII text needs it: the result when
  it is ASCII text, and \<open>None\<close> when it has a character outside ASCII. Lower-casing maps
  \<open>A\<close> to \<open>Z\<close> to \<open>a\<close> to \<open>z\<close>, keeps the other ASCII characters, maps the Kelvin sign
  \<open>U+212A\<close> (bytes \<open>E2 84 AA\<close>) to \<open>k\<close>, and maps every other character to text that has
  a character outside ASCII.
\<close>

definition kelvinSign :: string where
  "kelvinSign = [CHR 0xE2, CHR 0x84, CHR 0xAA]"

fun toLowerCaseASCII :: "string \<Rightarrow> string option" where
  "toLowerCaseASCII [] = Some []"
| "toLowerCaseASCII (c # cs) =
     (if isASCII c then map_option (Cons (toLowerChar c)) (toLowerCaseASCII cs)
      else if take 3 (c # cs) = kelvinSign
        then map_option (Cons (CHR ''k'')) (toLowerCaseASCII (drop 2 cs))
      else None)"

text \<open>
  The white space of \<open>trim\<close>, \<open>parseInt\<close> and \<open>Number\<close>: tab, line feed, vertical tab,
  form feed, carriage return, space, and the characters \<open>U+00A0\<close>, \<open>U+1680\<close>,
  \<open>U+2000\<close> to \<open>U+200A\<close>, \<open>U+2028\<close>, \<open>U+2029\<close>, \<open>U+202F\<close>, \<open>U+205F\<close>, \<open>U+3000\<close> and
  \<open>U+FEFF\<close>, in UTF-8.
\<close>

definition whiteSpaces :: "string list" where
  "whiteSpaces =
     [[CHR 0x09], [CHR 0x0A], [CHR 0x0B], [CHR 0x0C], [CHR 0x0D], [CHR 0x20],
      [CHR 0xC2, CHR 0xA0], [CHR 0xE1, CHR 0x9A, CHR 0x80],
      [CHR 0xE2, CHR 0x80, CHR 0x80], [CHR 0xE2, CHR 0x80, CHR 0x81],
      [CHR 0xE2, CHR 0x80, CHR 0x82], [CHR 0xE2, CHR 0x80, CHR 0x83],
      [CHR 0xE2, CHR 0x80, CHR 0x84], [CHR 0xE2, CHR 0x80, CHR 0x85],
      [CHR 0xE2, CHR 0x80, CHR 0x86], [CHR 0xE2, CHR 0x80, CHR 0x87],
      [CHR 0xE2, CHR 0x80, CHR 0x88], [CHR 0xE2, CHR 0x80, CHR 0x89],
      [CHR 0xE2, CHR 0x80, CHR 0x8A], [CHR 0xE2, CHR 0x80, CHR 0xA8],
      [CHR 0xE2, CHR 0x80, CHR 0xA9], [CHR 0xE2, CHR 0x80, CHR 0xAF],
      [CHR 0xE2, CHR 0x81, CHR 0x9F], [CHR 0xE3, CHR 0x80, CHR 0x80],
      [CHR 0xEF, CHR 0xBB, CHR 0xBF]]"

text \<open>Removing, as long as there is one, a leading occurrence of one of the sequences.\<close>

fun stripPrefixes :: "string list \<Rightarrow> string \<Rightarrow> string" where
  "stripPrefixes seqs [] = []"
| "stripPrefixes seqs (c # cs) =
     (case find (\<lambda>w. w \<noteq> [] \<and> take (length w) (c # cs) = w) seqs of
        None \<Rightarrow> c # cs
      | Some w \<Rightarrow> stripPrefixes seqs (drop (length w - 1) cs))"

definition trimStart :: "string \<Rightarrow> string" where
  "trimStart s = stripPrefixes whiteSpaces s"

definition trimEnd :: "string \<Rightarrow> string" where
  "trimEnd s = rev (stripPrefixes (map rev whiteSpaces) (rev s))"

definition trim :: "string \<Rightarrow> string" where
  "trim s = trimEnd (trimStart s)"

text \<open>
  \<open>s.length\<close> counts UTF-16 code units: one for each character of one to three bytes,
  two for each character of four bytes. A byte \<open>0x80\<close> to \<open>0xBF\<close> continues a character,
  a byte from \<open>0xF0\<close> starts one of four bytes.
\<close>

definition codeUnits :: "char \<Rightarrow> nat" where
  "codeUnits c =
     (let b = (of_char c :: int) in
      if 128 \<le> b \<and> b < 192 then 0 else if 240 \<le> b then 2 else 1)"

definition stringLength :: "string \<Rightarrow> nat" where
  "stringLength s = sum_list (map codeUnits s)"

subsection \<open>Numbers\<close>

text \<open>
  A JavaScript number is \<open>NaN\<close>, an infinity or a finite value. Finite values are kept
  as exact rationals: \<open>+0\<close> and \<open>-0\<close> are one value (they are equal as \<open>Map\<close> keys and
  under every comparison the code makes), and the rounding of IEEE doubles is outside
  the model, which is exact on the integers below \<open>2^53\<close> that phases, durations, loads
  and priorities are.
\<close>

datatype number = NaN | Finite rat | Infinity | NegInfinity

definition truthy :: "number \<Rightarrow> bool" where
  "truthy n = (n \<noteq> NaN \<and> n \<noteq> Finite 0)"

fun lessThan :: "number \<Rightarrow> number \<Rightarrow> bool" where
  "lessThan NaN _ = False"
| "lessThan _ NaN = False"
| "lessThan (Finite a) (Finite b) = (a < b)"
| "lessThan (Finite a) Infinity = True"
| "lessThan (Finite a) NegInfinity = False"
| "lessThan Infinity _ = False"
| "lessThan NegInfinity NegInfinity = False"
| "lessThan NegInfinity _ = True"

definition greaterThan :: "number \<Rightarrow> number \<Rightarrow> bool" where
  "greaterThan a b = lessThan b a"

fun add :: "number \<Rightarrow> number \<Rightarrow> number" where
  "add NaN _ = NaN"
| "add _ NaN = NaN"
| "add (Finite a) (Finite b) = Finite (a + b)"
| "add (Finite a) Infinity = Infinity"
| "add (Finite a) NegInfinity = NegInfinity"
| "add Infinity NegInfinity = NaN"
| "add Infinity _ = Infinity"
| "add NegInfinity Infinity = NaN"
| "add NegInfinity _ = NegInfinity"

fun negate :: "number \<Rightarrow> number" where
  "negate NaN = NaN"
| "negate (Finite a) = Finite (- a)"
| "negate Infinity = NegInfinity"
| "negate NegInfinity = Infinity"

definition subtract :: "number \<Rightarrow> number \<Rightarrow> number" where
  "subtract a b = add a (negate b)"

definition isInteger :: "number \<Rightarrow> bool" where
  "isInteger n = (case n of Finite r \<Rightarrow> r = of_int \<lfloor>r\<rfloor> | _ \<Rightarrow> False)"

subsection \<open>Strings\<close>

text \<open>\<open>s.split(sep)\<close> for a one-character separator: the empty string gives one empty piece.\<close>

fun splitString :: "char \<Rightarrow> string \<Rightarrow> string list" where
  "splitString sep [] = [[]]"
| "splitString sep (c # cs) =
     (if c = sep then [] # splitString sep cs
      else (case splitString sep cs of
              [] \<Rightarrow> [[c]]
            | p # ps \<Rightarrow> (c # p) # ps))"

text \<open>\<open>xs.join(sep)\<close> on strings.\<close>

fun join :: "string \<Rightarrow> string list \<Rightarrow> string" where
  "join sep [] = []"
| "join sep [x] = x"
| "join sep (x # y # ys) = x @ sep @ join sep (y # ys)"

definition digitValue :: "char \<Rightarrow> int option" where
  "digitValue c =
     map_of (zip ''0123456789abcdefABCDEF''
       [0, 1, 2, 3, 4, 5, 6, 7, 8, 9, 10, 11, 12, 13, 14, 15, 10, 11, 12, 13, 14, 15]) c"

definition isDigitIn :: "int \<Rightarrow> char \<Rightarrow> bool" where
  "isDigitIn radix c = (case digitValue c of Some d \<Rightarrow> d < radix | None \<Rightarrow> False)"

definition isDecimalDigit :: "char \<Rightarrow> bool" where
  "isDecimalDigit c = isDigitIn 10 c"

definition digitOf :: "char \<Rightarrow> int" where
  "digitOf c = (case digitValue c of Some d \<Rightarrow> d | None \<Rightarrow> 0)"

definition digitsValue :: "int \<Rightarrow> string \<Rightarrow> int" where
  "digitsValue radix ds = foldl (\<lambda>acc c. acc * radix + digitOf c) 0 ds"

definition startsWith :: "string \<Rightarrow> string \<Rightarrow> bool" where
  "startsWith s p = (take (length p) s = p)"

text \<open>
  \<open>parseInt(string)\<close> with no radix: leading white space is skipped, a sign is read, a
  \<open>0x\<close> or \<open>0X\<close> prefix selects radix 16, and the longest run of digits of the radix is
  the value; no digit at all gives \<open>NaN\<close>.
\<close>

definition parseInt :: "string \<Rightarrow> number" where
  "parseInt inputString =
     (let S = trimStart inputString;
          negative = startsWith S ''-'';
          S1 = (if startsWith S ''-'' \<or> startsWith S ''+'' then drop 1 S else S);
          hex = (startsWith S1 ''0x'' \<or> startsWith S1 ''0X'');
          R = (if hex then 16 else 10);
          S2 = (if hex then drop 2 S1 else S1);
          Z = takeWhile (isDigitIn R) S2
      in if Z = [] then NaN
         else if negative then Finite (- of_int (digitsValue R Z))
         else Finite (of_int (digitsValue R Z)))"

text \<open>
  \<open>Number(string)\<close>, the \<open>StringToNumber\<close> of ECMAScript: the trimmed text is empty (value
  0), a binary, octal or hexadecimal integer literal, or an optionally signed \<open>Infinity\<close>
  or decimal literal with optional fraction and exponent; anything else is \<open>NaN\<close>.
\<close>

definition scale10 :: "rat \<Rightarrow> int \<Rightarrow> rat" where
  "scale10 m e = (if 0 \<le> e then m * 10 ^ nat e else m / 10 ^ nat (- e))"

definition signedInteger :: "string \<Rightarrow> int option" where
  "signedInteger s =
     (let negative = startsWith s ''-'';
          ds = (if startsWith s ''-'' \<or> startsWith s ''+'' then drop 1 s else s)
      in if ds \<noteq> [] \<and> list_all isDecimalDigit ds
         then Some (if negative then - digitsValue 10 ds else digitsValue 10 ds)
         else None)"

definition unsignedDecimalLiteral :: "string \<Rightarrow> rat option" where
  "unsignedDecimalLiteral s =
     (let ip = takeWhile isDecimalDigit s;
          r1 = dropWhile isDecimalDigit s;
          hasDot = startsWith r1 ''.'';
          fp = (if hasDot then takeWhile isDecimalDigit (drop 1 r1) else []);
          r2 = (if hasDot then dropWhile isDecimalDigit (drop 1 r1) else r1);
          hasExp = (startsWith r2 ''e'' \<or> startsWith r2 ''E'');
          ex = (if hasExp then signedInteger (drop 1 r2) else if r2 = [] then Some 0 else None)
      in if ip = [] \<and> fp = [] then None
         else (case ex of
                 None \<Rightarrow> None
               | Some e \<Rightarrow> Some (scale10 (of_int (digitsValue 10 (ip @ fp))) (e - int (length fp)))))"

definition nonDecimalIntegerLiteral :: "string \<Rightarrow> int option" where
  "nonDecimalIntegerLiteral s =
     (let radix = (if startsWith s ''0x'' \<or> startsWith s ''0X'' then 16
                   else if startsWith s ''0o'' \<or> startsWith s ''0O'' then 8
                   else if startsWith s ''0b'' \<or> startsWith s ''0B'' then 2
                   else 0);
          ds = drop 2 s
      in if radix \<noteq> 0 \<and> ds \<noteq> [] \<and> list_all (isDigitIn radix) ds
         then Some (digitsValue radix ds) else None)"

definition StringToNumber :: "string \<Rightarrow> number" where
  "StringToNumber str =
     (let t = trim str in
      if t = [] then Finite 0
      else (case nonDecimalIntegerLiteral t of
              Some n \<Rightarrow> Finite (of_int n)
            | None \<Rightarrow>
               (let negative = startsWith t ''-'';
                    u = (if startsWith t ''-'' \<or> startsWith t ''+'' then drop 1 t else t)
                in if u = ''Infinity'' then (if negative then NegInfinity else Infinity)
                   else (case unsignedDecimalLiteral u of
                           None \<Rightarrow> NaN
                         | Some r \<Rightarrow> Finite (if negative then - r else r)))))"

text \<open>
  \<open>String(number)\<close>, the \<open>Number::toString\<close> of ECMAScript in radix 10: with \<open>s\<close> the
  significant digits, \<open>k\<close> their count and \<open>n\<close> the position of the decimal point, the
  text is positional for \<open>-6 < n \<le> 21\<close> and exponential otherwise. Every double is a
  finite decimal fraction; a rational that is none is no JavaScript number and is
  written as a fraction.
\<close>

definition digitChar :: "int \<Rightarrow> char" where
  "digitChar d = ''0123456789'' ! nat (d mod 10)"

function intToString :: "int \<Rightarrow> string" where
  "intToString n = (if n < 10 then [digitChar n] else intToString (n div 10) @ [digitChar n])"
  by pat_completeness auto
termination
  by (relation "measure nat") auto

function decimalPlaces :: "int \<Rightarrow> nat option" where
  "decimalPlaces q =
     (if q \<le> 0 then None
      else if q = 1 then Some 0
      else if q mod 10 = 0 then map_option Suc (decimalPlaces (q div 10))
      else if q mod 2 = 0 then map_option Suc (decimalPlaces (q div 2))
      else if q mod 5 = 0 then map_option Suc (decimalPlaces (q div 5))
      else None)"
  by pat_completeness auto
termination
  by (relation "measure nat") auto

definition positiveToString :: "rat \<Rightarrow> string" where
  "positiveToString r =
     (let p = fst (quotient_of r); q = snd (quotient_of r) in
      case decimalPlaces q of
        None \<Rightarrow> intToString p @ ''/'' @ intToString q
      | Some j \<Rightarrow>
         (let digits = intToString (p * 10 ^ j div q);
              n = int (length digits) - int j;
              s = rev (dropWhile (\<lambda>c. c = CHR ''0'') (rev digits));
              k = int (length s);
              e = n - 1;
              es = (if e < 0 then ''-'' else ''+'') @ intToString \<bar>e\<bar>
          in if k \<le> n \<and> n \<le> 21 then s @ replicate (nat (n - k)) (CHR ''0'')
             else if 0 < n \<and> n \<le> 21 then take (nat n) s @ ''.'' @ drop (nat n) s
             else if - 6 < n \<and> n \<le> 0 then ''0.'' @ replicate (nat (- n)) (CHR ''0'') @ s
             else if k = 1 then s @ ''e'' @ es
             else take 1 s @ ''.'' @ drop 1 s @ ''e'' @ es))"

definition NumberToString :: "number \<Rightarrow> string" where
  "NumberToString x =
     (case x of
        NaN \<Rightarrow> ''NaN''
      | Infinity \<Rightarrow> ''Infinity''
      | NegInfinity \<Rightarrow> ''-Infinity''
      | Finite r \<Rightarrow>
          (if r = 0 then ''0''
           else if r < 0 then ''-'' @ positiveToString (- r)
           else positiveToString r))"

subsection \<open>Primitive values\<close>

text \<open>
  The values a field can hold at run time besides an array: the TypeScript types are
  erased, and the validator tests the shapes itself (\<open>Array.isArray\<close>, \<open>typeof\<close>,
  \<open>Number.isInteger\<close>). Array elements are primitive values; equality of primitives is
  the key equality of \<open>Map\<close> and \<open>Set\<close>.
\<close>

datatype prim = Undefined | Null | Boolean bool | Number number | Str string

definition ToStringPrim :: "prim \<Rightarrow> string" where
  "ToStringPrim p =
     (case p of
        Undefined \<Rightarrow> ''undefined''
      | Null \<Rightarrow> ''null''
      | Boolean b \<Rightarrow> (if b then ''true'' else ''false'')
      | Number n \<Rightarrow> NumberToString n
      | Str s \<Rightarrow> s)"

definition ToNumberPrim :: "prim \<Rightarrow> number" where
  "ToNumberPrim p =
     (case p of
        Undefined \<Rightarrow> NaN
      | Null \<Rightarrow> Finite 0
      | Boolean b \<Rightarrow> (if b then Finite 1 else Finite 0)
      | Number n \<Rightarrow> n
      | Str s \<Rightarrow> StringToNumber s)"

datatype 'a arrayish = Array "'a list" | NotArray prim

datatype exn = SyntaxError | TypeError | RangeError

section \<open>\<open>JSON.parse\<close>\<close>

text \<open>
  The values \<open>JSON.parse\<close> builds, and the function itself: the text is cut into tokens
  and the tokens are read by a stack machine. An object keeps its members in source
  order. An escape \<open>\uXXXX\<close> above \<open>0x7F\<close> is kept as its UTF-8 bytes.
\<close>

datatype json =
    JNull
  | JBool bool
  | JNum number
  | JStr string
  | JArr "json list"
  | JObj "(string \<times> json) list"

datatype token =
    TLBrace | TRBrace | TLBracket | TRBracket | TColon | TComma
  | TString string | TNumber rat | TTrue | TFalse | TNull

definition isJSONWhiteSpace :: "char \<Rightarrow> bool" where
  "isJSONWhiteSpace c = (c \<in> set [CHR '' '', CHR 0x09, CHR 0x0A, CHR 0x0D])"

definition isNumberChar :: "char \<Rightarrow> bool" where
  "isNumberChar c = (c \<in> set ''0123456789+-.eE'')"

definition isLowerLetter :: "char \<Rightarrow> bool" where
  "isLowerLetter c = (c \<in> set ''abcdefghijklmnopqrstuvwxyz'')"

text \<open>A JSON number: \<open>-? (0 | [1-9][0-9]*) (. [0-9]+)? ([eE] [+-]? [0-9]+)?\<close>.\<close>

definition jsonNumber :: "string \<Rightarrow> rat option" where
  "jsonNumber s =
     (let negative = startsWith s ''-'';
          u = (if negative then drop 1 s else s);
          ip = takeWhile isDecimalDigit u;
          r1 = dropWhile isDecimalDigit u;
          hasDot = startsWith r1 ''.'';
          fp = (if hasDot then takeWhile isDecimalDigit (drop 1 r1) else []);
          r2 = (if hasDot then dropWhile isDecimalDigit (drop 1 r1) else r1);
          hasExp = (startsWith r2 ''e'' \<or> startsWith r2 ''E'');
          ex = (if hasExp then signedInteger (drop 1 r2) else if r2 = [] then Some 0 else None)
      in if ip = [] \<or> (1 < length ip \<and> startsWith ip ''0'') \<or> (hasDot \<and> fp = []) then None
         else (case ex of
                 None \<Rightarrow> None
               | Some e \<Rightarrow>
                   (let m = scale10 (of_int (digitsValue 10 (ip @ fp))) (e - int (length fp))
                    in Some (if negative then - m else m))))"

text \<open>
  The UTF-8 bytes of a code point. An escape \<open>\uXXXX\<close> names one UTF-16 code unit; a
  high surrogate escape followed by a low surrogate escape is one character of four
  bytes, and a surrogate on its own is kept as three bytes.
\<close>

definition utf8 :: "int \<Rightarrow> string" where
  "utf8 cp =
     (if cp < 0x80 then [char_of cp]
      else if cp < 0x800 then [char_of (0xC0 + cp div 64), char_of (0x80 + cp mod 64)]
      else if cp < 0x10000 then
        [char_of (0xE0 + cp div 4096), char_of (0x80 + cp div 64 mod 64), char_of (0x80 + cp mod 64)]
      else
        [char_of (0xF0 + cp div 262144), char_of (0x80 + cp div 4096 mod 64),
         char_of (0x80 + cp div 64 mod 64), char_of (0x80 + cp mod 64)])"

definition escapeChar :: "char \<Rightarrow> char option" where
  "escapeChar e =
     map_of [(CHR 0x22, CHR 0x22), (CHR 0x5C, CHR 0x5C), (CHR ''/'', CHR ''/''),
             (CHR ''b'', CHR 0x08), (CHR ''f'', CHR 0x0C), (CHR ''n'', CHR 0x0A),
             (CHR ''r'', CHR 0x0D), (CHR ''t'', CHR 0x09)] e"

text \<open>The code unit of \<open>uXXXX\<close> at the start of a text.\<close>

definition unicodeEscape :: "string \<Rightarrow> int option" where
  "unicodeEscape s =
     (if take 1 s = ''u'' \<and> 5 \<le> length s \<and> list_all (isDigitIn 16) (take 4 (drop 1 s))
      then Some (digitsValue 16 (take 4 (drop 1 s))) else None)"

definition lowSurrogateAfter :: "int \<Rightarrow> string \<Rightarrow> int option" where
  "lowSurrogateAfter hi s =
     (if 0xD800 \<le> hi \<and> hi < 0xDC00 \<and> take 1 s = [CHR 0x5C] then
        (case unicodeEscape (drop 1 s) of
           None \<Rightarrow> None
         | Some lo \<Rightarrow> if 0xDC00 \<le> lo \<and> lo < 0xE000 then Some lo else None)
      else None)"

text \<open>The escape after a backslash: its text, and what follows it.\<close>

definition readEscape :: "string \<Rightarrow> (string \<times> string) option" where
  "readEscape s =
     (case s of
        [] \<Rightarrow> None
      | e # es \<Rightarrow>
         (if e = CHR ''u'' then
            (case unicodeEscape s of
               None \<Rightarrow> None
             | Some hi \<Rightarrow>
                (case lowSurrogateAfter hi (drop 4 es) of
                   None \<Rightarrow> Some (utf8 hi, drop 4 es)
                 | Some lo \<Rightarrow>
                     Some (utf8 (0x10000 + (hi - 0xD800) * 1024 + (lo - 0xDC00)), drop 10 es)))
          else (case escapeChar e of
                  None \<Rightarrow> None
                | Some ch \<Rightarrow> Some ([ch], es))))"

lemma readEscape_shorter:
  "readEscape s = Some (t, rest) \<Longrightarrow> length rest \<le> length s"
  by (cases s) (auto simp: readEscape_def split: if_splits option.splits)

text \<open>The characters of a string literal after its opening quote, up to the closing one.\<close>

function lexString :: "string \<Rightarrow> string \<Rightarrow> (string \<times> string) option" where
  "lexString acc [] = None"
| "lexString acc (c # cs) =
     (if c = CHR 0x22 then Some (acc, cs)
      else if c = CHR 0x5C then
        (case readEscape cs of
           None \<Rightarrow> None
         | Some (t, rest) \<Rightarrow> lexString (acc @ t) rest)
      else if (of_char c :: int) < 0x20 then None
      else lexString (acc @ [c]) cs)"
  by pat_completeness auto
termination
proof (relation "measure (\<lambda>(acc, s). length s)", goal_cases)
  case 1
  then show ?case by simp
next
  case (2 c acc cs x2 t rest)
  then show ?case
    using readEscape_shorter [of cs t rest] by simp
next
  case (3 c acc cs)
  then show ?case by simp
qed

lemma lexString_shorter:
  "lexString acc s = Some (r, rest) \<Longrightarrow> length rest < length s"
proof (induction acc s rule: lexString.induct)
  case (1 acc)
  then show ?case by simp
next
  case (2 acc c cs)
  show ?case
  proof (cases "c = CHR 0x22")
    case True
    with "2.prems" show ?thesis by simp
  next
    case nq: False
    show ?thesis
    proof (cases "c = CHR 0x5C")
      case True
      with "2.prems" nq obtain t rest' where re: "readEscape cs = Some (t, rest')"
        and eq: "lexString (acc @ t) rest' = Some (r, rest)"
        by (auto split: option.splits)
      from "2.IH"(1) [OF nq True re refl eq] readEscape_shorter [OF re]
      show ?thesis by simp
    next
      case nb: False
      with "2.prems" nq have ctl: "\<not> (of_char c :: int) < 0x20"
        and eq: "lexString (acc @ [c]) cs = Some (r, rest)"
        by (auto split: if_splits)
      from "2.IH"(2) [OF nq nb ctl eq] show ?thesis by simp
    qed
  qed
qed

function lexJSON :: "string \<Rightarrow> token list option" where
  "lexJSON [] = Some []"
| "lexJSON (c # cs) =
     (if isJSONWhiteSpace c then lexJSON cs
      else if c = CHR ''{'' then map_option (Cons TLBrace) (lexJSON cs)
      else if c = CHR ''}'' then map_option (Cons TRBrace) (lexJSON cs)
      else if c = CHR ''['' then map_option (Cons TLBracket) (lexJSON cs)
      else if c = CHR '']'' then map_option (Cons TRBracket) (lexJSON cs)
      else if c = CHR '':'' then map_option (Cons TColon) (lexJSON cs)
      else if c = CHR '','' then map_option (Cons TComma) (lexJSON cs)
      else if c = CHR 0x22 then
        (case lexString [] cs of
           None \<Rightarrow> None
         | Some (s, rest) \<Rightarrow> map_option (Cons (TString s)) (lexJSON rest))
      else if c = CHR ''-'' \<or> isDecimalDigit c then
        (case jsonNumber (c # takeWhile isNumberChar cs) of
           None \<Rightarrow> None
         | Some r \<Rightarrow> map_option (Cons (TNumber r)) (lexJSON (dropWhile isNumberChar cs)))
      else if isLowerLetter c then
        (let w = c # takeWhile isLowerLetter cs in
         if w = ''true'' then map_option (Cons TTrue) (lexJSON (dropWhile isLowerLetter cs))
         else if w = ''false'' then map_option (Cons TFalse) (lexJSON (dropWhile isLowerLetter cs))
         else if w = ''null'' then map_option (Cons TNull) (lexJSON (dropWhile isLowerLetter cs))
         else None)
      else None)"
  by pat_completeness auto
termination
proof (relation "measure length", goal_cases)
  case 1
  then show ?case by simp
next
  case (9 c cs x2 x y)
  then show ?case by (auto dest!: lexString_shorter sym [of "Some _"])
qed (auto simp: le_imp_less_Suc length_dropWhile_le)

datatype frame = ArrayFrame "json list" | ObjectFrame "(string \<times> json) list" "string option"

datatype mode = MValue | MValueOrEnd | MKeyOrEnd | MKey | MColon | MCommaOrEnd | MDone

type_synonym parser = "mode \<times> frame list \<times> json option"

text \<open>A value is complete: it is the result, or goes into the container on top.\<close>

fun completeValue :: "json \<Rightarrow> frame list \<Rightarrow> parser option" where
  "completeValue v [] = Some (MDone, [], Some v)"
| "completeValue v (ArrayFrame xs # st) = Some (MCommaOrEnd, ArrayFrame (xs @ [v]) # st, None)"
| "completeValue v (ObjectFrame ms (Some k) # st) =
     Some (MCommaOrEnd, ObjectFrame (ms @ [(k, v)]) None # st, None)"
| "completeValue v (ObjectFrame ms None # st) = None"

fun closeArray :: "frame list \<Rightarrow> parser option" where
  "closeArray (ArrayFrame xs # st) = completeValue (JArr xs) st"
| "closeArray _ = None"

fun closeObject :: "frame list \<Rightarrow> parser option" where
  "closeObject (ObjectFrame ms None # st) = completeValue (JObj ms) st"
| "closeObject _ = None"

fun startValue :: "token \<Rightarrow> frame list \<Rightarrow> parser option" where
  "startValue TLBracket st = Some (MValueOrEnd, ArrayFrame [] # st, None)"
| "startValue TLBrace st = Some (MKeyOrEnd, ObjectFrame [] None # st, None)"
| "startValue (TString s) st = completeValue (JStr s) st"
| "startValue (TNumber r) st = completeValue (JNum (Finite r)) st"
| "startValue TTrue st = completeValue (JBool True) st"
| "startValue TFalse st = completeValue (JBool False) st"
| "startValue TNull st = completeValue JNull st"
| "startValue _ st = None"

fun startMember :: "token \<Rightarrow> frame list \<Rightarrow> parser option" where
  "startMember (TString k) (ObjectFrame ms None # st) = Some (MColon, ObjectFrame ms (Some k) # st, None)"
| "startMember _ _ = None"

fun parseStep :: "parser \<Rightarrow> token \<Rightarrow> parser option" where
  "parseStep (MValue, st, _) t = startValue t st"
| "parseStep (MValueOrEnd, st, _) t = (if t = TRBracket then closeArray st else startValue t st)"
| "parseStep (MKeyOrEnd, st, _) t = (if t = TRBrace then closeObject st else startMember t st)"
| "parseStep (MKey, st, _) t = startMember t st"
| "parseStep (MColon, st, _) t = (if t = TColon then Some (MValue, st, None) else None)"
| "parseStep (MCommaOrEnd, st, _) t =
     (if t = TComma then
        (case st of
           ArrayFrame xs # _ \<Rightarrow> Some (MValue, st, None)
         | ObjectFrame ms k # _ \<Rightarrow> Some (MKey, st, None)
         | [] \<Rightarrow> None)
      else if t = TRBracket then closeArray st
      else if t = TRBrace then closeObject st
      else None)"
| "parseStep (MDone, st, _) t = None"

fun parseTokens :: "parser \<Rightarrow> token list \<Rightarrow> parser option" where
  "parseTokens p [] = Some p"
| "parseTokens p (t # ts) = (case parseStep p t of None \<Rightarrow> None | Some p' \<Rightarrow> parseTokens p' ts)"

definition JSON_parse :: "string \<Rightarrow> exn + json" where
  "JSON_parse text =
     (case lexJSON text of
        None \<Rightarrow> Inl SyntaxError
      | Some ts \<Rightarrow>
         (case parseTokens (MValue, [], None) ts of
            Some (MDone, [], Some v) \<Rightarrow> Inr v
          | _ \<Rightarrow> Inl SyntaxError))"

subsection \<open>\<open>String(x)\<close> and \<open>Number(x)\<close> on parsed JSON\<close>

text \<open>
  Converting an object to a primitive calls its \<open>toString\<close> and \<open>valueOf\<close>. An array
  joins its elements with commas (\<open>null\<close> as the empty text). A parsed object inherits
  \<open>Object.prototype.toString\<close>, unless it has a member of its own named \<open>toString\<close>:
  that member is no function, \<open>valueOf\<close> gives no primitive either, and the conversion
  throws a \<open>TypeError\<close>.
\<close>

fun ToString :: "json \<Rightarrow> exn + string"
  and elementStrings :: "json list \<Rightarrow> exn + string list" where
  "ToString JNull = Inr ''null''"
| "ToString (JBool b) = Inr (if b then ''true'' else ''false'')"
| "ToString (JNum n) = Inr (NumberToString n)"
| "ToString (JStr s) = Inr s"
| "ToString (JArr xs) =
     (case elementStrings xs of Inl e \<Rightarrow> Inl e | Inr ss \<Rightarrow> Inr (join '','' ss))"
| "ToString (JObj ms) =
     (if map_of ms ''toString'' \<noteq> None then Inl TypeError else Inr ''[object Object]'')"
| "elementStrings [] = Inr []"
| "elementStrings (x # xs) =
     (case (if x = JNull then Inr [] else ToString x) of
        Inl e \<Rightarrow> Inl e
      | Inr s \<Rightarrow> (case elementStrings xs of Inl e \<Rightarrow> Inl e | Inr ss \<Rightarrow> Inr (s # ss)))"

definition ToNumber :: "json \<Rightarrow> exn + number" where
  "ToNumber x =
     (case x of
        JNull \<Rightarrow> Inr (Finite 0)
      | JBool b \<Rightarrow> Inr (if b then Finite 1 else Finite 0)
      | JNum n \<Rightarrow> Inr n
      | JStr s \<Rightarrow> Inr (StringToNumber s)
      | _ \<Rightarrow> (case ToString x of Inl e \<Rightarrow> Inl e | Inr s \<Rightarrow> Inr (StringToNumber s)))"

text \<open>\<open>xs.map(f)\<close> with a callback that may throw: the first exception ends the loop.\<close>

fun mapM :: "('a \<Rightarrow> exn + 'b) \<Rightarrow> 'a list \<Rightarrow> exn + 'b list" where
  "mapM f [] = Inr []"
| "mapM f (x # xs) =
     (case f x of
        Inl e \<Rightarrow> Inl e
      | Inr y \<Rightarrow> (case mapM f xs of Inl e \<Rightarrow> Inl e | Inr ys \<Rightarrow> Inr (y # ys)))"

definition isNaN :: "number \<Rightarrow> bool" where
  "isNaN n = (n = NaN)"

text \<open>\<open>a || b\<close> on numbers: \<open>b\<close> when \<open>a\<close> is \<open>NaN\<close> or zero.\<close>

definition logicalOr :: "number \<Rightarrow> number \<Rightarrow> number" where
  "logicalOr a b = (if truthy a then a else b)"

section \<open>The entities\<close>

datatype attributes = AttributesString string | AttributesObject

record client =
  ClientID :: string
  ClientName :: string
  PriorityLevel :: number
  RequestedTaskIDs :: "string arrayish"
  GroupTag :: string
  AttributesJSON :: attributes

record worker =
  WorkerID :: string
  WorkerName :: string
  Skills :: "string arrayish"
  AvailableSlots :: "prim arrayish"
  MaxLoadPerPhase :: number
  WorkerGroup :: string
  QualificationLevel :: number

record task =
  TaskID :: string
  TaskName :: string
  Category :: string
  Duration :: number
  RequiredSkills :: "string arrayish"
  PreferredPhases :: "prim arrayish"
  MaxConcurrent :: number

section \<open>Field coercion: \<open>FileParser\<close>\<close>

text \<open>
  How a statement ends: \<open>return\<close> with a value, normal completion that falls through to
  the next statement, or an exception. A \<open>try\<close> block is a computation of this type, and
  \<open>catch { }\<close> turns its exception into normal completion.
\<close>

datatype 'a completion = Returns 'a | Falls | Throws exn

text \<open>
  \<^verbatim>\<open>
  private static getValue(row: any, keys: string[]): string {
    for (const key of keys) {
      if (row[key] !== undefined && row[key] !== null) return String(row[key]).trim();
    }
    return '';
  }
  \<close>
\<close>

type_synonym row = "string \<Rightarrow> prim"

definition getValue :: "row \<Rightarrow> string list \<Rightarrow> string" where
  "getValue row keys =
     (case find (\<lambda>key. row key \<noteq> Undefined \<and> row key \<noteq> Null) keys of
        Some key \<Rightarrow> trim (ToStringPrim (row key))
      | None \<Rightarrow> [])"

text \<open>
  \<^verbatim>\<open>
  private static parseArray(value: string): string[] {
    if (!value) return [];
    try {
      const parsed = JSON.parse(value);
      if (Array.isArray(parsed)) return parsed.map(String);
    } catch { }
    return value.split(',').map(item => item.trim()).filter(item => item.length > 0);
  }
  \<close>
\<close>

definition parseArray_try :: "string \<Rightarrow> string list completion" where
  "parseArray_try value =
     (case JSON_parse value of
        Inl e \<Rightarrow> Throws e
      | Inr parsed \<Rightarrow>
         (case parsed of
            JArr xs \<Rightarrow> (case mapM ToString xs of Inl e \<Rightarrow> Throws e | Inr ss \<Rightarrow> Returns ss)
          | _ \<Rightarrow> Falls))"

definition parseArray :: "string \<Rightarrow> exn + string list" where
  "parseArray value =
     (if value = [] then Inr []
      else (case parseArray_try value of
              Returns result \<Rightarrow> Inr result
            | _ \<Rightarrow> Inr (filter (\<lambda>item. 0 < length item)
                         (map trim (splitString (CHR '','') value)))))"

text \<open>
  The fallback of \<open>parseNumberArray\<close> and \<open>parsePhases\<close>:
  \<^verbatim>\<open>value.split(',').map(item => parseInt(item.trim())).filter(n => !isNaN(n))\<close>.
\<close>

definition commaSeparatedIntegers :: "string \<Rightarrow> number list" where
  "commaSeparatedIntegers value =
     filter (\<lambda>n. \<not> isNaN n) (map (\<lambda>item. parseInt (trim item)) (splitString (CHR '','') value))"

text \<open>
  \<^verbatim>\<open>
  private static parseNumberArray(value: string): number[] {
    if (!value) return [];
    try {
      const parsed = JSON.parse(value);
      if (Array.isArray(parsed)) return parsed.map(Number).filter(n => !isNaN(n));
    } catch { }
    return value.split(',').map(item => parseInt(item.trim())).filter(n => !isNaN(n));
  }
  \<close>
\<close>

definition parseNumberArray_try :: "string \<Rightarrow> number list completion" where
  "parseNumberArray_try value =
     (case JSON_parse value of
        Inl e \<Rightarrow> Throws e
      | Inr parsed \<Rightarrow>
         (case parsed of
            JArr xs \<Rightarrow>
              (case mapM ToNumber xs of
                 Inl e \<Rightarrow> Throws e
               | Inr ns \<Rightarrow> Returns (filter (\<lambda>n. \<not> isNaN n) ns))
          | _ \<Rightarrow> Falls))"


text \<open>The test of \<^verbatim>\<open>/^\d+-\d+$/\<close>, as in \<open>parsePhases\<close> and \<open>isValidPhaseRange\<close>.\<close>

definition isValidPhaseRange :: "string \<Rightarrow> bool" where
  "isValidPhaseRange rng =
     (let r1 = dropWhile isDecimalDigit rng in
      takeWhile isDecimalDigit rng \<noteq> [] \<and> startsWith r1 ''-'' \<and>
      drop 1 r1 \<noteq> [] \<and> list_all isDecimalDigit (drop 1 r1))"

text \<open>
  \<^verbatim>\<open>
  private static parsePhases(value: string): number[] | string {
    if (!value) return [];
    if (/^\d+-\d+$/.test(value)) return value;
    try {
      const parsed = JSON.parse(value);
      if (Array.isArray(parsed)) return parsed.map(Number).filter(n => !isNaN(n));
    } catch { }
    const numbers = value.split(',').map(item => parseInt(item.trim())).filter(n => !isNaN(n));
    return numbers.length > 0 ? numbers : value;
  }
  \<close>
  The result is a list of numbers or the string.
\<close>

definition parsePhases :: "string \<Rightarrow> exn + prim arrayish" where
  "parsePhases value =
     (if value = [] then Inr (Array [])
      else if isValidPhaseRange value then Inr (NotArray (Str value))
      else (case parseNumberArray_try value of
              Returns result \<Rightarrow> Inr (Array (map Number result))
            | _ \<Rightarrow>
               (let numbers = commaSeparatedIntegers value
                in if 0 < length numbers then Inr (Array (map Number numbers))
                   else Inr (NotArray (Str value)))))"

text \<open>
  The three row transformations. An integer field is \<^verbatim>\<open>parseInt(this.getValue(row, keys)) || 1\<close>.
\<close>

definition integerField :: "row \<Rightarrow> string list \<Rightarrow> number" where
  "integerField row keys = logicalOr (parseInt (getValue row keys)) (Finite 1)"

definition andThen :: "exn + 'a \<Rightarrow> ('a \<Rightarrow> exn + 'b) \<Rightarrow> exn + 'b" where
  "andThen m f = (case m of Inl e \<Rightarrow> Inl e | Inr x \<Rightarrow> f x)"

definition transformClient :: "row \<Rightarrow> exn + client" where
  "transformClient row =
     andThen (parseArray (getValue row [''RequestedTaskIDs'', ''requested_task_ids'', ''tasks'']))
       (\<lambda>requested. Inr
         \<lparr>ClientID = getValue row [''ClientID'', ''client_id'', ''id''],
          ClientName = getValue row [''ClientName'', ''client_name'', ''name''],
          PriorityLevel = integerField row [''PriorityLevel'', ''priority_level'', ''priority''],
          RequestedTaskIDs = Array requested,
          GroupTag = getValue row [''GroupTag'', ''group_tag'', ''group''],
          AttributesJSON =
            AttributesString (getValue row [''AttributesJSON'', ''attributes_json'', ''attributes''])\<rparr>)"


definition transformTask :: "row \<Rightarrow> exn + task" where
  "transformTask row =
     andThen (parseArray (getValue row [''RequiredSkills'', ''required_skills'', ''skills'']))
       (\<lambda>required.
     andThen (parsePhases (getValue row [''PreferredPhases'', ''preferred_phases'', ''phases'']))
       (\<lambda>phases. Inr
         \<lparr>TaskID = getValue row [''TaskID'', ''task_id'', ''id''],
          TaskName = getValue row [''TaskName'', ''task_name'', ''name''],
          Category = getValue row [''Category'', ''category''],
          Duration = integerField row [''Duration'', ''duration''],
          RequiredSkills = Array required,
          PreferredPhases = phases,
          MaxConcurrent = integerField row [''MaxConcurrent'', ''max_concurrent'', ''concurrent'']\<rparr>))"

section \<open>Schema inference: \<open>FileParser.detectEntityType\<close>\<close>

datatype entity = Client | Worker | Task

text \<open>
  \<^verbatim>\<open>
  const headerSet = new Set(headers.map(h => h.toLowerCase()));
  if (headerSet.has('clientid') || headerSet.has('client_id') ||
      headerSet.has('prioritylevel') || headerSet.has('requestedtaskids')) return 'client';
  if (headerSet.has('workerid') || headerSet.has('worker_id') || headerSet.has('skills') ||
      headerSet.has('availableslots') || headerSet.has('maxloadperphase') ||
      headerSet.has('workergroup')) return 'worker';
  if (headerSet.has('taskid') || headerSet.has('task_id') || headerSet.has('duration') ||
      headerSet.has('requiredskills') || headerSet.has('preferredphases') ||
      headerSet.has('maxconcurrent')) return 'task';
  return 'client';
  \<close>
  An element of \<open>headerSet\<close> is compared with ASCII text only, so the set is kept as
  the lower-cased headers that are ASCII text, and \<open>None\<close> for the others.
\<close>

definition detectEntityType :: "string list \<Rightarrow> entity" where
  "detectEntityType headers =
     (let headerSet = set (map toLowerCaseASCII headers) in
      if Some ''clientid'' \<in> headerSet \<or> Some ''client_id'' \<in> headerSet \<or>
         Some ''prioritylevel'' \<in> headerSet \<or> Some ''requestedtaskids'' \<in> headerSet then Client
      else if Some ''workerid'' \<in> headerSet \<or> Some ''worker_id'' \<in> headerSet \<or>
         Some ''skills'' \<in> headerSet \<or> Some ''availableslots'' \<in> headerSet \<or>
         Some ''maxloadperphase'' \<in> headerSet \<or> Some ''workergroup'' \<in> headerSet then Worker
      else if Some ''taskid'' \<in> headerSet \<or> Some ''task_id'' \<in> headerSet \<or>
         Some ''duration'' \<in> headerSet \<or> Some ''requiredskills'' \<in> headerSet \<or>
         Some ''preferredphases'' \<in> headerSet \<or> Some ''maxconcurrent'' \<in> headerSet then Task
      else Client)"

section \<open>Validation: \<open>DataValidator\<close>\<close>

datatype severity = Error | Warning | Info

record ValidationError =
  errorId :: string
  severityType :: severity
  message :: string
  fieldName :: "string option"
  rowIndex :: "nat option"
  entityTag :: entity

text \<open>
  \<^verbatim>\<open>
  private addError(type, message, field?, rowIndex?, entity?): void {
    this.errors.push({ id: `${Date.now()}-${Math.random()}`, type, message, field, rowIndex,
                       entity: entity || 'client' });
  }
  \<close>
  The identifier comes from the clock and the random number generator: \<open>ids n\<close> is the
  text they give when \<open>n\<close> issues are already in the list.
\<close>

definition addError ::
  "(nat \<Rightarrow> string) \<Rightarrow> severity \<Rightarrow> string \<Rightarrow> string option \<Rightarrow> nat option \<Rightarrow> entity option
     \<Rightarrow> ValidationError list \<Rightarrow> ValidationError list" where
  "addError ids type msg field index entity errors =
     errors @ [\<lparr>errorId = ids (length errors), severityType = type, message = msg,
                 fieldName = field, rowIndex = index,
                 entityTag = (case entity of Some e \<Rightarrow> e | None \<Rightarrow> Client)\<rparr>]"

text \<open>\<open>if (b) this.addError(...)\<close>.\<close>

definition guard ::
  "bool \<Rightarrow> (ValidationError list \<Rightarrow> ValidationError list) \<Rightarrow> ValidationError list
     \<Rightarrow> ValidationError list" where
  "guard b f errors = (if b then f errors else errors)"

text \<open>\<open>xs.forEach((x, index) => ...)\<close> over a loop state, without and with exceptions.\<close>

fun forEach :: "(nat \<Rightarrow> 'a \<Rightarrow> 's \<Rightarrow> 's) \<Rightarrow> nat \<Rightarrow> 'a list \<Rightarrow> 's \<Rightarrow> 's" where
  "forEach f i [] s = s"
| "forEach f i (x # xs) s = forEach f (Suc i) xs (f i x s)"

fun forEachM :: "(nat \<Rightarrow> 'a \<Rightarrow> 's \<Rightarrow> exn + 's) \<Rightarrow> nat \<Rightarrow> 'a list \<Rightarrow> 's \<Rightarrow> exn + 's" where
  "forEachM f i [] s = Inr s"
| "forEachM f i (x # xs) s =
     (case f i x s of Inl e \<Rightarrow> Inl e | Inr s' \<Rightarrow> forEachM f (Suc i) xs s')"

definition isArray :: "'a arrayish \<Rightarrow> bool" where
  "isArray v = (case v of Array _ \<Rightarrow> True | NotArray _ \<Rightarrow> False)"

definition isString :: "'a arrayish \<Rightarrow> bool" where
  "isString v = (case v of NotArray (Str _) \<Rightarrow> True | _ \<Rightarrow> False)"

definition throwsJSON :: "string \<Rightarrow> bool" where
  "throwsJSON s = (case JSON_parse s of Inl _ \<Rightarrow> True | Inr _ \<Rightarrow> False)"

text \<open>
  The body of the loop of \<open>validateClients\<close>; the loop state is the set \<open>clientIds\<close> and
  the issue list.
  \<^verbatim>\<open>
  if (!client.ClientID) this.addError('error', 'Missing ClientID', 'ClientID', index, 'client');
  if (!client.ClientName) this.addError('error', 'Missing ClientName', 'ClientName', index, 'client');
  if (clientIds.has(client.ClientID))
    this.addError('error', `Duplicate ClientID: ${client.ClientID}`, 'ClientID', index, 'client');
  clientIds.add(client.ClientID);
  if (client.PriorityLevel < 1 || client.PriorityLevel > 5)
    this.addError('error', 'PriorityLevel must be between 1-5', 'PriorityLevel', index, 'client');
  if (!Array.isArray(client.RequestedTaskIDs))
    this.addError('error', 'RequestedTaskIDs must be an array', 'RequestedTaskIDs', index, 'client');
  if (typeof client.AttributesJSON === 'string') {
    try { JSON.parse(client.AttributesJSON); }
    catch { this.addError('error', 'Invalid JSON in AttributesJSON', 'AttributesJSON', index, 'client'); }
  }
  \<close>
\<close>

definition validateClient ::
  "(nat \<Rightarrow> string) \<Rightarrow> nat \<Rightarrow> client \<Rightarrow> string set \<times> ValidationError list
     \<Rightarrow> string set \<times> ValidationError list" where
  "validateClient ids index c st =
     (let clientIds = fst st; errors = snd st;
          errors = guard (ClientID c = [])
            (addError ids Error ''Missing ClientID'' (Some ''ClientID'') (Some index) (Some Client)) errors;
          errors = guard (ClientName c = [])
            (addError ids Error ''Missing ClientName'' (Some ''ClientName'') (Some index) (Some Client)) errors;
          errors = guard (ClientID c \<in> clientIds)
            (addError ids Error (''Duplicate ClientID: '' @ ClientID c) (Some ''ClientID'') (Some index)
               (Some Client)) errors;
          clientIds = insert (ClientID c) clientIds;
          errors = guard (lessThan (PriorityLevel c) (Finite 1) \<or> greaterThan (PriorityLevel c) (Finite 5))
            (addError ids Error ''PriorityLevel must be between 1-5'' (Some ''PriorityLevel'') (Some index)
               (Some Client)) errors;
          errors = guard (\<not> isArray (RequestedTaskIDs c))
            (addError ids Error ''RequestedTaskIDs must be an array'' (Some ''RequestedTaskIDs'')
               (Some index) (Some Client)) errors;
          errors = guard (case AttributesJSON c of
                            AttributesString s \<Rightarrow> throwsJSON s
                          | AttributesObject \<Rightarrow> False)
            (addError ids Error ''Invalid JSON in AttributesJSON'' (Some ''AttributesJSON'') (Some index)
               (Some Client)) errors
      in (clientIds, errors))"

definition validateClients ::
  "(nat \<Rightarrow> string) \<Rightarrow> client list \<Rightarrow> ValidationError list \<Rightarrow> ValidationError list" where
  "validateClients ids clients errors = snd (forEach (validateClient ids) 0 clients ({}, errors))"

text \<open>
  \<open>worker.AvailableSlots.length\<close>: the number of elements of an array, the length of a
  string, \<open>undefined\<close> on a number or a boolean, and a \<open>TypeError\<close> on \<open>undefined\<close> and
  \<open>null\<close>, which have no properties.
\<close>

definition lengthOf :: "'a arrayish \<Rightarrow> exn + prim" where
  "lengthOf v =
     (case v of
        Array xs \<Rightarrow> Inr (Number (Finite (of_nat (length xs))))
      | NotArray Undefined \<Rightarrow> Inl TypeError
      | NotArray Null \<Rightarrow> Inl TypeError
      | NotArray (Str s) \<Rightarrow> Inr (Number (Finite (of_nat (stringLength s))))
      | NotArray _ \<Rightarrow> Inr Undefined)"

definition isIntegerPrim :: "prim \<Rightarrow> bool" where
  "isIntegerPrim p = (case p of Number n \<Rightarrow> isInteger n | _ \<Rightarrow> False)"

text \<open>
  The body of the loop of \<open>validateWorkers\<close>.
  \<^verbatim>\<open>
  if (!worker.WorkerID) this.addError('error', 'Missing WorkerID', 'WorkerID', index, 'worker');
  if (!worker.WorkerName) this.addError('error', 'Missing WorkerName', 'WorkerName', index, 'worker');
  if (workerIds.has(worker.WorkerID))
    this.addError('error', `Duplicate WorkerID: ${worker.WorkerID}`, 'WorkerID', index, 'worker');
  workerIds.add(worker.WorkerID);
  if (!Array.isArray(worker.Skills))
    this.addError('error', 'Skills must be an array', 'Skills', index, 'worker');
  if (!Array.isArray(worker.AvailableSlots)) {
    this.addError('error', 'AvailableSlots must be an array', 'AvailableSlots', index, 'worker');
  } else {
    const invalidSlots = worker.AvailableSlots.filter(slot => !Number.isInteger(slot) || slot < 1);
    if (invalidSlots.length > 0)
      this.addError('error', 'AvailableSlots must contain positive integers', 'AvailableSlots', index, 'worker');
  }
  if (!Number.isInteger(worker.MaxLoadPerPhase) || worker.MaxLoadPerPhase < 1)
    this.addError('error', 'MaxLoadPerPhase must be a positive integer', 'MaxLoadPerPhase', index, 'worker');
  if (worker.AvailableSlots.length < worker.MaxLoadPerPhase)
    this.addError('warning', 'Worker has more max load than available slots', 'MaxLoadPerPhase', index, 'worker');
  \<close>
\<close>

definition validateWorker ::
  "(nat \<Rightarrow> string) \<Rightarrow> nat \<Rightarrow> worker \<Rightarrow> string set \<times> ValidationError list
     \<Rightarrow> exn + string set \<times> ValidationError list" where
  "validateWorker ids index w st =
     (let workerIds = fst st; errors = snd st;
          errors = guard (WorkerID w = [])
            (addError ids Error ''Missing WorkerID'' (Some ''WorkerID'') (Some index) (Some Worker)) errors;
          errors = guard (WorkerName w = [])
            (addError ids Error ''Missing WorkerName'' (Some ''WorkerName'') (Some index) (Some Worker)) errors;
          errors = guard (WorkerID w \<in> workerIds)
            (addError ids Error (''Duplicate WorkerID: '' @ WorkerID w) (Some ''WorkerID'') (Some index)
               (Some Worker)) errors;
          workerIds = insert (WorkerID w) workerIds;
          errors = guard (\<not> isArray (Skills w))
            (addError ids Error ''Skills must be an array'' (Some ''Skills'') (Some index) (Some Worker)) errors;
          errors =
            (case AvailableSlots w of
               NotArray _ \<Rightarrow>
                 addError ids Error ''AvailableSlots must be an array'' (Some ''AvailableSlots'')
                   (Some index) (Some Worker) errors
             | Array slots \<Rightarrow>
                 (let invalidSlots =
                        filter (\<lambda>slot. \<not> isIntegerPrim slot \<or> lessThan (ToNumberPrim slot) (Finite 1)) slots
                  in guard (0 < length invalidSlots)
                       (addError ids Error ''AvailableSlots must contain positive integers''
                          (Some ''AvailableSlots'') (Some index) (Some Worker)) errors));
          errors = guard (\<not> isInteger (MaxLoadPerPhase w) \<or> lessThan (MaxLoadPerPhase w) (Finite 1))
            (addError ids Error ''MaxLoadPerPhase must be a positive integer'' (Some ''MaxLoadPerPhase'')
               (Some index) (Some Worker)) errors
      in case lengthOf (AvailableSlots w) of
           Inl e \<Rightarrow> Inl e
         | Inr len \<Rightarrow>
             Inr (workerIds,
                  guard (lessThan (ToNumberPrim len) (MaxLoadPerPhase w))
                    (addError ids Warning ''Worker has more max load than available slots''
                       (Some ''MaxLoadPerPhase'') (Some index) (Some Worker)) errors))"

definition validateWorkers ::
  "(nat \<Rightarrow> string) \<Rightarrow> worker list \<Rightarrow> ValidationError list \<Rightarrow> exn + ValidationError list" where
  "validateWorkers ids workers errors =
     (case forEachM (validateWorker ids) 0 workers ({}, errors) of
        Inl e \<Rightarrow> Inl e
      | Inr st \<Rightarrow> Inr (snd st))"

text \<open>
  The body of the loop of \<open>validateTasks\<close>.
  \<^verbatim>\<open>
  if (!task.TaskID) this.addError('error', 'Missing TaskID', 'TaskID', index, 'task');
  if (!task.TaskName) this.addError('error', 'Missing TaskName', 'TaskName', index, 'task');
  if (taskIds.has(task.TaskID))
    this.addError('error', `Duplicate TaskID: ${task.TaskID}`, 'TaskID', index, 'task');
  taskIds.add(task.TaskID);
  if (!Number.isInteger(task.Duration) || task.Duration < 1)
    this.addError('error', 'Duration must be a positive integer', 'Duration', index, 'task');
  if (!Array.isArray(task.RequiredSkills))
    this.addError('error', 'RequiredSkills must be an array', 'RequiredSkills', index, 'task');
  if (!Number.isInteger(task.MaxConcurrent) || task.MaxConcurrent < 1)
    this.addError('error', 'MaxConcurrent must be a positive integer', 'MaxConcurrent', index, 'task');
  if (typeof task.PreferredPhases === 'string') {
    if (!this.isValidPhaseRange(task.PreferredPhases))
      this.addError('error', 'Invalid PreferredPhases format', 'PreferredPhases', index, 'task');
  } else if (!Array.isArray(task.PreferredPhases)) {
    this.addError('error', 'PreferredPhases must be an array or range string', 'PreferredPhases', index, 'task');
  }
  \<close>
\<close>

definition validateTask ::
  "(nat \<Rightarrow> string) \<Rightarrow> nat \<Rightarrow> task \<Rightarrow> string set \<times> ValidationError list
     \<Rightarrow> string set \<times> ValidationError list" where
  "validateTask ids index t st =
     (let taskIds = fst st; errors = snd st;
          errors = guard (TaskID t = [])
            (addError ids Error ''Missing TaskID'' (Some ''TaskID'') (Some index) (Some Task)) errors;
          errors = guard (TaskName t = [])
            (addError ids Error ''Missing TaskName'' (Some ''TaskName'') (Some index) (Some Task)) errors;
          errors = guard (TaskID t \<in> taskIds)
            (addError ids Error (''Duplicate TaskID: '' @ TaskID t) (Some ''TaskID'') (Some index)
               (Some Task)) errors;
          taskIds = insert (TaskID t) taskIds;
          errors = guard (\<not> isInteger (Duration t) \<or> lessThan (Duration t) (Finite 1))
            (addError ids Error ''Duration must be a positive integer'' (Some ''Duration'') (Some index)
               (Some Task)) errors;
          errors = guard (\<not> isArray (RequiredSkills t))
            (addError ids Error ''RequiredSkills must be an array'' (Some ''RequiredSkills'') (Some index)
               (Some Task)) errors;
          errors = guard (\<not> isInteger (MaxConcurrent t) \<or> lessThan (MaxConcurrent t) (Finite 1))
            (addError ids Error ''MaxConcurrent must be a positive integer'' (Some ''MaxConcurrent'')
               (Some index) (Some Task)) errors;
          errors =
            (case PreferredPhases t of
               NotArray (Str s) \<Rightarrow>
                 guard (\<not> isValidPhaseRange s)
                   (addError ids Error ''Invalid PreferredPhases format'' (Some ''PreferredPhases'')
                      (Some index) (Some Task)) errors
             | NotArray _ \<Rightarrow>
                 addError ids Error ''PreferredPhases must be an array or range string''
                   (Some ''PreferredPhases'') (Some index) (Some Task) errors
             | Array _ \<Rightarrow> errors)
      in (taskIds, errors))"

definition validateTasks ::
  "(nat \<Rightarrow> string) \<Rightarrow> task list \<Rightarrow> ValidationError list \<Rightarrow> ValidationError list" where
  "validateTasks ids tasks errors = snd (forEach (validateTask ids) 0 tasks ({}, errors))"

text \<open>
  \<open>validateCrossReferences\<close>. \<open>workers.flatMap(w => w.Skills)\<close> takes the elements of a
  \<open>Skills\<close> that is an array and the value itself of one that is not.
  \<^verbatim>\<open>
  const taskIds = new Set(this.tasks.map(t => t.TaskID));
  const allWorkerSkills = new Set(this.workers.flatMap(w => w.Skills));
  this.clients.forEach((client, index) => {
    if (Array.isArray(client.RequestedTaskIDs)) {
      const invalidTasks = client.RequestedTaskIDs.filter(taskId => !taskIds.has(taskId));
      if (invalidTasks.length > 0)
        this.addError('error', `Unknown task references: ${invalidTasks.join(', ')}`,
                      'RequestedTaskIDs', index, 'client');
    }
  });
  this.tasks.forEach((task, index) => {
    if (Array.isArray(task.RequiredSkills)) {
      const unavailableSkills = task.RequiredSkills.filter(skill => !allWorkerSkills.has(skill));
      if (unavailableSkills.length > 0)
        this.addError('error', `No workers have required skills: ${unavailableSkills.join(', ')}`,
                      'RequiredSkills', index, 'task');
    }
  });
  \<close>
\<close>

definition flatSkills :: "worker \<Rightarrow> prim list" where
  "flatSkills w = (case Skills w of Array xs \<Rightarrow> map Str xs | NotArray p \<Rightarrow> [p])"

definition invalidTasksOf :: "string set \<Rightarrow> client \<Rightarrow> string list" where
  "invalidTasksOf taskIds c =
     (case RequestedTaskIDs c of
        Array requested \<Rightarrow> filter (\<lambda>taskId. taskId \<notin> taskIds) requested
      | NotArray _ \<Rightarrow> [])"

definition unavailableSkillsOf :: "prim set \<Rightarrow> task \<Rightarrow> string list" where
  "unavailableSkillsOf allWorkerSkills t =
     (case RequiredSkills t of
        Array required \<Rightarrow> filter (\<lambda>skill. Str skill \<notin> allWorkerSkills) required
      | NotArray _ \<Rightarrow> [])"

definition checkClientReferences ::
  "(nat \<Rightarrow> string) \<Rightarrow> string set \<Rightarrow> nat \<Rightarrow> client \<Rightarrow> ValidationError list \<Rightarrow> ValidationError list" where
  "checkClientReferences ids taskIds index c errors =
     (let invalidTasks = invalidTasksOf taskIds c in
      guard (0 < length invalidTasks)
        (addError ids Error (''Unknown task references: '' @ join '', '' invalidTasks)
           (Some ''RequestedTaskIDs'') (Some index) (Some Client)) errors)"

definition checkTaskSkills ::
  "(nat \<Rightarrow> string) \<Rightarrow> prim set \<Rightarrow> nat \<Rightarrow> task \<Rightarrow> ValidationError list \<Rightarrow> ValidationError list" where
  "checkTaskSkills ids allWorkerSkills index t errors =
     (let unavailableSkills = unavailableSkillsOf allWorkerSkills t in
      guard (0 < length unavailableSkills)
        (addError ids Error (''No workers have required skills: '' @ join '', '' unavailableSkills)
           (Some ''RequiredSkills'') (Some index) (Some Task)) errors)"

definition validateCrossReferences ::
  "(nat \<Rightarrow> string) \<Rightarrow> client list \<Rightarrow> worker list \<Rightarrow> task list \<Rightarrow> ValidationError list
     \<Rightarrow> ValidationError list" where
  "validateCrossReferences ids clients workers tasks errors =
     (let taskIds = set (map TaskID tasks);
          allWorkerSkills = set (concat (map flatSkills workers));
          errors = forEach (checkClientReferences ids taskIds) 0 clients errors
      in forEach (checkTaskSkills ids allWorkerSkills) 0 tasks errors)"

text \<open>
  \<open>validateCapacityConstraints\<close>. A \<open>Map\<close> is a list of entries in insertion order;
  \<open>set\<close> on a key that is present replaces its value in place.
  \<^verbatim>\<open>
  const phaseSlots = new Map<number, number>();
  this.workers.forEach(worker => {
    if (Array.isArray(worker.AvailableSlots))
      worker.AvailableSlots.forEach(phase => {
        phaseSlots.set(phase, (phaseSlots.get(phase) || 0) + worker.MaxLoadPerPhase); });
  });
  const phaseDemand = new Map<number, number>();
  this.tasks.forEach(task => {
    if (Array.isArray(task.PreferredPhases))
      task.PreferredPhases.forEach((phase: number) => {
        phaseDemand.set(phase, (phaseDemand.get(phase) || 0) + task.Duration); });
  });
  phaseDemand.forEach((demand, phase) => {
    const available = phaseSlots.get(phase) || 0;
    if (demand > available)
      this.addError('warning', `Phase ${phase} is oversaturated: ${demand} duration needed, ` +
                    `${available} slots available`, undefined, undefined, 'task');
  });
  \<close>
\<close>

type_synonym phaseMap = "(prim \<times> number) list"

definition getOrZero :: "phaseMap \<Rightarrow> prim \<Rightarrow> number" where
  "getOrZero m phase = (case map_of m phase of None \<Rightarrow> Finite 0 | Some n \<Rightarrow> logicalOr n (Finite 0))"

definition accumulate :: "number \<Rightarrow> prim \<Rightarrow> phaseMap \<Rightarrow> phaseMap" where
  "accumulate amount phase m = AList.update phase (add (getOrZero m phase) amount) m"

definition addSlots :: "worker \<Rightarrow> phaseMap \<Rightarrow> phaseMap" where
  "addSlots w phaseSlots =
     (case AvailableSlots w of
        Array slots \<Rightarrow> fold (accumulate (MaxLoadPerPhase w)) slots phaseSlots
      | NotArray _ \<Rightarrow> phaseSlots)"

definition addDemand :: "task \<Rightarrow> phaseMap \<Rightarrow> phaseMap" where
  "addDemand t phaseDemand =
     (case PreferredPhases t of
        Array phases \<Rightarrow> fold (accumulate (Duration t)) phases phaseDemand
      | NotArray _ \<Rightarrow> phaseDemand)"

definition checkPhase ::
  "(nat \<Rightarrow> string) \<Rightarrow> phaseMap \<Rightarrow> prim \<times> number \<Rightarrow> ValidationError list \<Rightarrow> ValidationError list" where
  "checkPhase ids phaseSlots entry errors =
     (let phase = fst entry; demand = snd entry; available = getOrZero phaseSlots phase in
      guard (greaterThan demand available)
        (addError ids Warning
           (''Phase '' @ ToStringPrim phase @ '' is oversaturated: '' @ NumberToString demand
              @ '' duration needed, '' @ NumberToString available @ '' slots available'')
           None None (Some Task)) errors)"

definition validateCapacityConstraints ::
  "(nat \<Rightarrow> string) \<Rightarrow> worker list \<Rightarrow> task list \<Rightarrow> ValidationError list \<Rightarrow> ValidationError list" where
  "validateCapacityConstraints ids workers tasks errors =
     (let phaseSlots = fold addSlots workers [];
          phaseDemand = fold addDemand tasks []
      in fold (checkPhase ids phaseSlots) phaseDemand errors)"

text \<open>
  \<^verbatim>\<open>
  validateAll(): ValidationError[] {
    this.errors = [];
    this.validateClients(); this.validateWorkers(); this.validateTasks();
    this.validateCrossReferences(); this.validateCapacityConstraints();
    return this.errors;
  }
  \<close>
\<close>

definition validateAll ::
  "(nat \<Rightarrow> string) \<Rightarrow> client list \<Rightarrow> worker list \<Rightarrow> task list \<Rightarrow> exn + ValidationError list" where
  "validateAll ids clients workers tasks =
     (let errors = validateClients ids clients [] in
      case validateWorkers ids workers errors of
        Inl e \<Rightarrow> Inl e
      | Inr errors \<Rightarrow>
          (let errors = validateTasks ids tasks errors;
               errors = validateCrossReferences ids clients workers tasks errors
           in Inr (validateCapacityConstraints ids workers tasks errors)))"

section \<open>\<open>parsePhaseRange\<close>\<close>

text \<open>
  \<open>Array.from({ length: n }, (_, i) => f(i))\<close>: the length is truncated to an integer
  between 0 and \<open>2^53 - 1 = 9007199254740991\<close> (\<open>NaN\<close> counts as 0), and an array of more than \<open>2^32 - 1 = 4294967295\<close>
  elements cannot be created: that is a \<open>RangeError\<close>.
\<close>

definition ToLength :: "number \<Rightarrow> int" where
  "ToLength n =
     (case n of
        NaN \<Rightarrow> 0
      | NegInfinity \<Rightarrow> 0
      | Infinity \<Rightarrow> 9007199254740991
      | Finite r \<Rightarrow> (if r \<le> 0 then 0 else min \<lfloor>r\<rfloor> 9007199254740991))"

definition arrayFrom :: "number \<Rightarrow> (nat \<Rightarrow> 'a) \<Rightarrow> exn + 'a list" where
  "arrayFrom n f =
     (let len = ToLength n in
      if 4294967295 < len then Inl RangeError else Inr (map f [0..<nat len]))"

text \<open>
  \<^verbatim>\<open>
  export function parsePhaseRange(phases: string | number[]): number[] {
    if (Array.isArray(phases)) return phases;
    if (typeof phases === 'string') {
      if (phases.includes('-')) {
        const [start, end] = phases.split('-').map(Number);
        return Array.from({ length: end - start + 1 }, (_, i) => start + i);
      }
      try { return JSON.parse(phases); } catch { return []; }
    }
    return [];
  }
  \<close>
  The result is a list of values or whatever \<open>JSON.parse\<close> gave. A missing element of the
  destructured array is \<open>undefined\<close>, a \<open>NaN\<close> in the arithmetic.
\<close>

datatype phaseList = PhaseArray "prim list" | ParsedValue json

definition elementOrNaN :: "number list \<Rightarrow> nat \<Rightarrow> number" where
  "elementOrNaN xs i = (if i < length xs then xs ! i else NaN)"

definition parsePhaseRange :: "prim arrayish \<Rightarrow> exn + phaseList" where
  "parsePhaseRange phases =
     (case phases of
        Array xs \<Rightarrow> Inr (PhaseArray xs)
      | NotArray (Str s) \<Rightarrow>
          (if CHR ''-'' \<in> set s then
             (let parts = map StringToNumber (splitString (CHR ''-'') s);
                  start = elementOrNaN parts 0;
                  end = elementOrNaN parts 1
              in case arrayFrom (add (subtract end start) (Finite 1))
                        (\<lambda>i. Number (add start (Finite (of_nat i)))) of
                   Inl e \<Rightarrow> Inl e
                 | Inr xs \<Rightarrow> Inr (PhaseArray xs))
           else (case JSON_parse s of
                   Inl e \<Rightarrow> Inr (PhaseArray [])
                 | Inr v \<Rightarrow> Inr (ParsedValue v)))
      | NotArray _ \<Rightarrow> Inr (PhaseArray []))"

section \<open>The vocabulary of the properties\<close>

text \<open>What an issue says, without its identifier.\<close>

definition content ::
  "ValidationError \<Rightarrow> severity \<times> string \<times> string option \<times> nat option \<times> entity" where
  "content e = (severityType e, message e, fieldName e, rowIndex e, entityTag e)"

text \<open>Two loop states that agree on everything but the identifiers.\<close>

definition alike ::
  "'s \<times> ValidationError list \<Rightarrow> 's \<times> ValidationError list \<Rightarrow> bool" where
  "alike s s' = (fst s = fst s' \<and> map content (snd s) = map content (snd s'))"

text \<open>The same for the loop over the workers, which may end in an exception.\<close>

definition alikeM ::
  "exn + 's \<times> ValidationError list \<Rightarrow> exn + 's \<times> ValidationError list \<Rightarrow> bool" where
  "alikeM r r' =
     (case r of
        Inl e \<Rightarrow> r' = Inl e
      | Inr s \<Rightarrow> (case r' of Inl _ \<Rightarrow> False | Inr s' \<Rightarrow> alike s s'))"




text \<open>The issue of a client row and of a task row, as the cross-reference check words it.\<close>

definition unknownTasksIssue ::
  "nat \<Rightarrow> string list \<Rightarrow> (severity \<times> string \<times> string option \<times> nat option \<times> entity) list" where
  "unknownTasksIssue i unknown =
     (if unknown = [] then []
      else [(Error, ''Unknown task references: '' @ join '', '' unknown,
             Some ''RequestedTaskIDs'', Some i, Client)])"

definition unmetSkillsIssue ::
  "nat \<Rightarrow> string list \<Rightarrow> (severity \<times> string \<times> string option \<times> nat option \<times> entity) list" where
  "unmetSkillsIssue j unmet =
     (if unmet = [] then []
      else [(Error, ''No workers have required skills: '' @ join '', '' unmet,
             Some ''RequiredSkills'', Some j, Task)])"

definition tagAndRow ::
  "severity \<times> string \<times> string option \<times> nat option \<times> entity \<Rightarrow> entity \<times> nat option" where
  "tagAndRow t = (snd (snd (snd (snd t))), fst (snd (snd (snd t))))"

text \<open>
  One client asking for \<open>T1\<close>, \<open>T9\<close> and \<open>T8\<close>, one task \<open>T1\<close> that requires welding and
  painting, and one worker who paints.
\<close>

definition weldingClients :: "client list" where
  "weldingClients =
     [\<lparr>ClientID = ''C1'', ClientName = ''Acme'', PriorityLevel = Finite 3,
       RequestedTaskIDs = Array [''T1'', ''T9'', ''T8''], GroupTag = ''G'',
       AttributesJSON = AttributesObject\<rparr>]"

definition weldingWorkers :: "worker list" where
  "weldingWorkers =
     [\<lparr>WorkerID = ''W1'', WorkerName = ''Bob'', Skills = Array [''painting''],
       AvailableSlots = Array [Number (Finite 1)], MaxLoadPerPhase = Finite 1,
       WorkerGroup = ''B'', QualificationLevel = Finite 2\<rparr>]"

definition weldingTasks :: "task list" where
  "weldingTasks =
     [\<lparr>TaskID = ''T1'', TaskName = ''Hull'', Category = ''Yard'', Duration = Finite 2,
       RequiredSkills = Array [''welding'', ''painting''],
       PreferredPhases = Array [Number (Finite 1)], MaxConcurrent = Finite 1\<rparr>]"

text \<open>
  The phases that a worker offers and that a task asks for: the elements of the field when
  it is an array, none when it is a range literal or any other value.
\<close>

definition slotsOf :: "worker \<Rightarrow> prim list" where
  "slotsOf w = (case AvailableSlots w of Array slots \<Rightarrow> slots | NotArray _ \<Rightarrow> [])"

definition phasesOf :: "task \<Rightarrow> prim list" where
  "phasesOf t = (case PreferredPhases t of Array phases \<Rightarrow> phases | NotArray _ \<Rightarrow> [])"

definition amountOf :: "number \<Rightarrow> rat" where
  "amountOf n = (case n of Finite r \<Rightarrow> r | _ \<Rightarrow> 0)"

text \<open>
  Supply and demand of a phase: the load of every worker, once for each time the phase
  stands in the worker's slots, and the duration of every task, once for each time the
  phase stands in the task's phases. A phase that nobody offers has supply 0.
\<close>

definition supplyAt :: "worker list \<Rightarrow> prim \<Rightarrow> rat" where
  "supplyAt workers p =
     (\<Sum>w\<leftarrow>workers. of_nat (count_list (slotsOf w) p) * amountOf (MaxLoadPerPhase w))"

definition demandAt :: "task list \<Rightarrow> prim \<Rightarrow> rat" where
  "demandAt tasks p =
     (\<Sum>t\<leftarrow>tasks. of_nat (count_list (phasesOf t) p) * amountOf (Duration t))"

text \<open>The elements of a list in the order in which they first occur.\<close>

definition firstOccurrences :: "'a list \<Rightarrow> 'a list" where
  "firstOccurrences xs = rev (remdups (rev xs))"

text \<open>
  The numbers on which the arithmetic of doubles is the arithmetic of integers:
  \<open>Number.isSafeInteger\<close>, the integers up to \<open>2^53 - 1 = 9007199254740991\<close>.
\<close>

definition isSafeInteger :: "number \<Rightarrow> bool" where
  "isSafeInteger n =
     (case n of Finite r \<Rightarrow> r = of_int \<lfloor>r\<rfloor> \<and> \<bar>r\<bar> \<le> 9007199254740991 | _ \<Rightarrow> False)"

definition exactPhase :: "prim \<Rightarrow> bool" where
  "exactPhase p = (case p of Number n \<Rightarrow> isSafeInteger n | _ \<Rightarrow> True)"

text \<open>The pairs of a phase and an amount that a loop over workers or tasks adds, in order.\<close>

definition entries :: "('a \<Rightarrow> prim list) \<Rightarrow> ('a \<Rightarrow> number) \<Rightarrow> 'a list \<Rightarrow> (prim \<times> number) list" where
  "entries phases amount xs = concat (map (\<lambda>x. map (\<lambda>p. (p, amount x)) (phases x)) xs)"

definition total :: "(prim \<times> number) list \<Rightarrow> prim \<Rightarrow> rat" where
  "total cs q = (\<Sum>c\<leftarrow>cs. if fst c = q then amountOf (snd c) else 0)"

definition isFinite :: "number \<Rightarrow> bool" where
  "isFinite n = (case n of Finite _ \<Rightarrow> True | _ \<Rightarrow> False)"

text \<open>
  Scenario D with a second task: worker loads 1 and 2 at phase 1 (supply 3), a task of
  duration 10 at phase 1, and a task of duration 50 with the range literal \<open>1-3\<close>.
\<close>

definition scenarioDWorkers :: "worker list" where
  "scenarioDWorkers =
     [\<lparr>WorkerID = ''W1'', WorkerName = ''Ann'', Skills = Array [''welding''],
       AvailableSlots = Array [Number (Finite 1), Number (Finite 2)], MaxLoadPerPhase = Finite 1,
       WorkerGroup = ''A'', QualificationLevel = Finite 1\<rparr>,
      \<lparr>WorkerID = ''W2'', WorkerName = ''Bob'', Skills = Array [''painting''],
       AvailableSlots = Array [Number (Finite 1)], MaxLoadPerPhase = Finite 2,
       WorkerGroup = ''B'', QualificationLevel = Finite 2\<rparr>]"

definition scenarioDTasks :: "task list" where
  "scenarioDTasks =
     [\<lparr>TaskID = ''T1'', TaskName = ''Hull'', Category = ''Yard'', Duration = Finite 10,
       RequiredSkills = Array [''welding''],
       PreferredPhases = Array [Number (Finite 1)], MaxConcurrent = Finite 1\<rparr>,
      \<lparr>TaskID = ''T2'', TaskName = ''Deck'', Category = ''Yard'', Duration = Finite 50,
       RequiredSkills = Array [''painting''],
       PreferredPhases = NotArray (Str ''1-3''), MaxConcurrent = Finite 1\<rparr>]"

section \<open>Properties of schema inference\<close>

text \<open>
  C3: the specification has detection strip underscores and white space before the
  marker test, as \<open>createFallbackMapping\<close> does for the header mapping, so that
  \<open>Available_Slots\<close> and \<open>max load per phase\<close> are worker markers. \<open>detectEntityType\<close>
  only lower-cases, and lists an underscore form for the three id markers alone. It
  knows \<open>AvailableSlots\<close> as a worker marker, and answers \<open>client\<close>, its default, on
  \<open>Available_Slots\<close>, on \<open>max load per phase\<close>, and on a table with the snake-case
  columns that \<open>transformWorker\<close> reads.
\<close>

theorem detectEntityType_misses_separators:
  "detectEntityType [''AvailableSlots''] = Worker
   \<and> detectEntityType [''Available_Slots''] = Client
   \<and> detectEntityType [''max load per phase''] = Client
   \<and> detectEntityType [''name'', ''available_slots'', ''max_load_per_phase'', ''worker_group'',
         ''qualification_level''] = Client"
  by code_simp

lemma detectEntityType_kelvin_sign:
  "detectEntityType [''S'' @ kelvinSign @ ''ILLS''] = Worker"
  by code_simp

section \<open>Properties of field coercion\<close>

lemma integerField_cases:
  "integerField row keys =
     (case parseInt (getValue row keys) of
        NaN \<Rightarrow> Finite 1
      | Finite r \<Rightarrow> (if r = 0 then Finite 1 else Finite r)
      | n \<Rightarrow> n)"
  by (simp add: integerField_def logicalOr_def truthy_def split: number.splits)

text \<open>
  C1: an integer field is \<open>parseInt(cell) || 1\<close>, and \<open>0\<close> is falsy. The cell \<open>0\<close> parses
  to the integer 0, and the client built from a row whose \<open>PriorityLevel\<close> cell is \<open>0\<close>
  has \<open>PriorityLevel\<close> 1, not 0; the same holds for \<open>Duration\<close> of a task.
\<close>

theorem integerField_zero_becomes_one:
  "parseInt ''0'' = Finite 0
   \<and> map_sum id PriorityLevel
        (transformClient ((\<lambda>_. Undefined)(''ClientID'' := Str ''C1'', ''PriorityLevel'' := Str ''0'')))
       = Inr (Finite 1)
   \<and> map_sum id Duration
        (transformTask ((\<lambda>_. Undefined)(''TaskID'' := Str ''T1'', ''Duration'' := Str ''0'')))
       = Inr (Finite 1)"
  by code_simp






section \<open>Properties of \<open>parsePhaseRange\<close>\<close>

lemma isDecimalDigit_iff: "isDecimalDigit c \<longleftrightarrow> c \<in> set ''0123456789''"
  by (auto simp: isDecimalDigit_def isDigitIn_def digitValue_def split: if_splits)

lemma splitString_last_piece: "sep \<notin> set a \<Longrightarrow> splitString sep a = [a]"
  by (induction a) auto

lemma splitString_first_piece:
  "sep \<notin> set a \<Longrightarrow> splitString sep (a @ sep # b) = a # splitString sep b"
  by (induction a) auto

lemma whiteSpaces_no_digit:
  "w \<in> set whiteSpaces \<Longrightarrow> isDecimalDigit c \<Longrightarrow> w \<noteq> [] \<and> hd w \<noteq> c \<and> last w \<noteq> c"
  by (auto simp: whiteSpaces_def isDecimalDigit_iff)

lemma stripPrefixes_none:
  assumes "\<forall>w \<in> set seqs. w \<noteq> [] \<longrightarrow> hd w \<noteq> c"
  shows "stripPrefixes seqs (c # cs) = c # cs"
proof -
  have "\<not> (w \<noteq> [] \<and> take (length w) (c # cs) = w)" if "w \<in> set seqs" for w
  proof
    assume h: "w \<noteq> [] \<and> take (length w) (c # cs) = w"
    then obtain x xs where w: "w = x # xs" by (cases w) auto
    with h have "x = c" by simp
    with assms that w show False by auto
  qed
  then have "find (\<lambda>w. w \<noteq> [] \<and> take (length w) (c # cs) = w) seqs = None"
    by (simp add: find_None_iff)
  then show ?thesis by simp
qed

lemma digits_trim:
  assumes "ds \<noteq> []" and "\<forall>c \<in> set ds. isDecimalDigit c"
  shows "trim ds = ds"
proof -
  from assms(1) obtain c cs where ds: "ds = c # cs" by (cases ds) auto
  from assms(1) obtain l ls where rds: "rev ds = l # ls" by (cases "rev ds") auto
  have c: "isDecimalDigit c" using assms(2) ds by simp
  have "l \<in> set (rev ds)" using rds by simp
  then have l: "isDecimalDigit l" using assms(2) by simp
  have s1: "stripPrefixes whiteSpaces (c # cs) = c # cs"
    using whiteSpaces_no_digit [OF _ c] by (intro stripPrefixes_none) blast
  have "\<forall>w \<in> set (map rev whiteSpaces). w \<noteq> [] \<longrightarrow> hd w \<noteq> l"
    using whiteSpaces_no_digit [OF _ l] by (auto simp: hd_rev)
  then have s2: "stripPrefixes (map rev whiteSpaces) (l # ls) = l # ls"
    by (rule stripPrefixes_none)
  have t1: "trimStart ds = ds"
    unfolding trimStart_def ds by (rule s1)
  have "rev (stripPrefixes (map rev whiteSpaces) (rev ds)) = rev (rev ds)"
    unfolding rds s2 ..
  then have t2: "trimEnd ds = ds"
    unfolding trimEnd_def by simp
  show ?thesis
    unfolding trim_def t1 t2 ..
qed

lemma digits_no_prefix:
  assumes "\<forall>c \<in> set ds. isDecimalDigit c" and "\<not> isDecimalDigit x"
  shows "\<not> startsWith ds [x]" and "\<not> startsWith ds [y, x]"
proof -
  have sub: "x \<in> set (take n ds) \<Longrightarrow> x \<in> set ds" for n
    by (rule in_set_takeD)
  show "\<not> startsWith ds [x]"
  proof
    assume "startsWith ds [x]"
    then have eq: "take (length [x]) ds = [x]" by (simp only: startsWith_def)
    have "x \<in> set [x]" by simp
    then have "x \<in> set (take (length [x]) ds)" by (simp only: eq)
    then have "x \<in> set ds" by (rule sub)
    with assms show False by blast
  qed
  show "\<not> startsWith ds [y, x]"
  proof
    assume "startsWith ds [y, x]"
    then have eq: "take (length [y, x]) ds = [y, x]" by (simp only: startsWith_def)
    have "x \<in> set [y, x]" by simp
    then have "x \<in> set (take (length [y, x]) ds)" by (simp only: eq)
    then have "x \<in> set ds" by (rule sub)
    with assms show False by blast
  qed
qed

lemma not_digit:
  "\<not> isDecimalDigit (CHR ''x'')" "\<not> isDecimalDigit (CHR ''X'')"
  "\<not> isDecimalDigit (CHR ''o'')" "\<not> isDecimalDigit (CHR ''O'')"
  "\<not> isDecimalDigit (CHR ''b'')" "\<not> isDecimalDigit (CHR ''B'')"
  "\<not> isDecimalDigit (CHR ''-'')" "\<not> isDecimalDigit (CHR ''+'')"
  "\<not> isDecimalDigit (CHR ''I'')"
  by (simp_all add: isDecimalDigit_iff)

lemma digits_nonDecimal:
  assumes dg: "\<forall>c \<in> set ds. isDecimalDigit c"
  shows "nonDecimalIntegerLiteral ds = None"
proof -
  note p = digits_no_prefix(2) [OF dg, of _ "CHR ''0''"]
  have "\<not> startsWith ds ''0x''" "\<not> startsWith ds ''0X''" "\<not> startsWith ds ''0o''"
    "\<not> startsWith ds ''0O''" "\<not> startsWith ds ''0b''" "\<not> startsWith ds ''0B''"
    by (rule p, rule not_digit)+
  then show ?thesis
    unfolding nonDecimalIntegerLiteral_def Let_def by simp
qed

lemma digits_unsignedDecimal:
  assumes ne: "ds \<noteq> []" and dg: "\<forall>c \<in> set ds. isDecimalDigit c"
  shows "unsignedDecimalLiteral ds = Some (of_int (digitsValue 10 ds))"
proof -
  have tw: "takeWhile isDecimalDigit ds = ds" and dw: "dropWhile isDecimalDigit ds = []"
    using dg by simp_all
  have st: "\<not> startsWith [] ''.''" "\<not> startsWith [] ''e''" "\<not> startsWith [] ''E''"
    by (simp_all add: startsWith_def)
  show ?thesis
    unfolding unsignedDecimalLiteral_def tw dw Let_def
    using ne by (simp add: st scale10_def)
qed

lemma StringToNumber_digits:
  assumes ne: "ds \<noteq> []" and dg: "\<forall>c \<in> set ds. isDecimalDigit c"
  shows "StringToNumber ds = Finite (of_int (digitsValue 10 ds))"
proof -
  have sg: "\<not> startsWith ds ''-''" "\<not> startsWith ds ''+''"
    by (rule digits_no_prefix(1) [OF dg], rule not_digit)+
  have "CHR ''I'' \<notin> set ds"
    using dg not_digit(9) by blast
  then have inf: "ds \<noteq> ''Infinity''"
    by auto
  show ?thesis
    unfolding StringToNumber_def digits_trim [OF ne dg] Let_def
    using ne by (simp add: digits_nonDecimal [OF dg] sg inf digits_unsignedDecimal [OF ne dg])
qed

lemma upto_as_map: "map (\<lambda>i. A + int i) [0..<nat (B - A + 1)] = [A..B]"
  by (rule nth_equalityI) simp_all

lemma arrayFrom_integers:
  "arrayFrom (add (subtract (Finite (of_int B)) (Finite (of_int A))) (Finite 1))
       (\<lambda>i. Number (add (Finite (of_int A)) (Finite (of_nat i))))
     = (if B - A < 4294967295 then Inr (map (\<lambda>n. Number (Finite (of_int n))) [A..B])
        else Inl RangeError)"
proof -
  have len: "add (subtract (Finite (of_int B)) (Finite (of_int A))) (Finite 1)
      = Finite (of_int (B - A + 1))"
    by (simp add: subtract_def)
  have tl: "ToLength (Finite (of_int (B - A + 1)))
      = (if B - A + 1 \<le> 0 then 0 else min (B - A + 1) 9007199254740991)"
    by (simp add: ToLength_def del: of_int_add of_int_diff)
  have el: "(\<lambda>i. Number (add (Finite (of_int A)) (Finite (of_nat i))))
      = (\<lambda>n. Number (Finite (of_int n))) \<circ> (\<lambda>i. A + int i)"
    by (auto simp: fun_eq_iff)
  show ?thesis
  proof (cases "B - A < 4294967295")
    case True
    then have "nat (ToLength (Finite (of_int (B - A + 1)))) = nat (B - A + 1)"
      and "\<not> 4294967295 < ToLength (Finite (of_int (B - A + 1)))"
      unfolding tl by auto
    then show ?thesis
      using True unfolding arrayFrom_def len Let_def el
      by (simp add: upto_as_map [symmetric])
  next
    case False
    then have "4294967295 < ToLength (Finite (of_int (B - A + 1)))"
      unfolding tl by auto
    then show ?thesis
      using False unfolding arrayFrom_def len Let_def by simp
  qed
qed

text \<open>
  C10 (as stated): every string \<open>start-end\<close> with \<open>start \<le> end\<close> gives the ascending
  list. \<open>Array.from\<close> cannot build an array of \<open>2^32\<close> elements: on \<open>0-4294967295\<close> the
  function raises a \<open>RangeError\<close>.
\<close>

theorem parsePhaseRange_long_range_counterexample:
  "parsePhaseRange (NotArray (Str ''0-4294967295'')) = Inl RangeError"
  by code_simp

text \<open>
  C10 (amended): an array is returned unchanged. For decimal digit strings \<open>a\<close> and \<open>b\<close>
  with values \<open>start\<close> and \<open>end\<close> of at most \<open>2^53\<close>, the string \<open>a-b\<close> gives the
  ascending list of the integers from \<open>start\<close> to \<open>end\<close> when it has at most \<open>2^32 - 1\<close>
  elements, which is the empty list when \<open>start > end\<close>, and raises a \<open>RangeError\<close> when
  it has more.
\<close>

theorem parsePhaseRange_range:
  "parsePhaseRange (Array xs) = Inr (PhaseArray xs)
   \<and> (a \<noteq> [] \<and> list_all isDecimalDigit a \<and> b \<noteq> [] \<and> list_all isDecimalDigit b
       \<and> digitsValue 10 a \<le> 9007199254740992 \<and> digitsValue 10 b \<le> 9007199254740992 \<longrightarrow>
        parsePhaseRange (NotArray (Str (a @ ''-'' @ b))) =
          (if digitsValue 10 b - digitsValue 10 a < 4294967295
           then Inr (PhaseArray (map (\<lambda>n. Number (Finite (of_int n)))
                                   [digitsValue 10 a..digitsValue 10 b]))
           else Inl RangeError))"
proof (intro conjI impI)
  show "parsePhaseRange (Array xs) = Inr (PhaseArray xs)"
    by (simp add: parsePhaseRange_def)
next
  assume h: "a \<noteq> [] \<and> list_all isDecimalDigit a \<and> b \<noteq> [] \<and> list_all isDecimalDigit b
     \<and> digitsValue 10 a \<le> 9007199254740992 \<and> digitsValue 10 b \<le> 9007199254740992"
  then have ne: "a \<noteq> []" "b \<noteq> []"
    and da: "\<forall>c \<in> set a. isDecimalDigit c" and db: "\<forall>c \<in> set b. isDecimalDigit c"
    by (simp_all add: list_all_iff)
  have na: "CHR ''-'' \<notin> set a" and nb: "CHR ''-'' \<notin> set b"
    using da db not_digit(7) by blast+
  have "splitString (CHR ''-'') (a @ CHR ''-'' # b) = a # splitString (CHR ''-'') b"
    by (rule splitString_first_piece [OF na])
  then have sp: "splitString (CHR ''-'') (a @ ''-'' @ b) = [a, b]"
    by (simp add: splitString_last_piece [OF nb])
  have parts: "map StringToNumber (splitString (CHR ''-'') (a @ ''-'' @ b))
      = [Finite (of_int (digitsValue 10 a)), Finite (of_int (digitsValue 10 b))]"
    by (simp only: sp list.map StringToNumber_digits [OF ne(1) da]
        StringToNumber_digits [OF ne(2) db])
  have e0: "elementOrNaN [Finite (of_int (digitsValue 10 a)), Finite (of_int (digitsValue 10 b))] 0
      = Finite (of_int (digitsValue 10 a))"
    and e1: "elementOrNaN [Finite (of_int (digitsValue 10 a)), Finite (of_int (digitsValue 10 b))] 1
      = Finite (of_int (digitsValue 10 b))"
    by (simp_all add: elementOrNaN_def)
  have m: "CHR ''-'' \<in> set (a @ ''-'' @ b)" by simp
  show "parsePhaseRange (NotArray (Str (a @ ''-'' @ b))) =
      (if digitsValue 10 b - digitsValue 10 a < 4294967295
       then Inr (PhaseArray (map (\<lambda>n. Number (Finite (of_int n)))
                               [digitsValue 10 a..digitsValue 10 b]))
       else Inl RangeError)"
    unfolding parsePhaseRange_def arrayish.case prim.case if_P [OF m] parts Let_def e0 e1
      arrayFrom_integers
    by simp
qed

theorem parsePhaseRange_range_witness:
  "''2'' \<noteq> [] \<and> list_all isDecimalDigit ''2'' \<and> ''5'' \<noteq> [] \<and> list_all isDecimalDigit ''5''
   \<and> digitsValue 10 ''2'' \<le> 9007199254740992 \<and> digitsValue 10 ''5'' \<le> 9007199254740992
   \<and> parsePhaseRange (NotArray (Str ''2-5''))
       = Inr (PhaseArray [Number (Finite 2), Number (Finite 3), Number (Finite 4), Number (Finite 5)])
   \<and> parsePhaseRange (NotArray (Str ''5-2'')) = Inr (PhaseArray [])"
proof -
  have d: "list_all isDecimalDigit ''2''" "list_all isDecimalDigit ''5''" by code_simp+
  have v: "digitsValue 10 ''2'' = 2" "digitsValue 10 ''5'' = 5" by code_simp+
  have u: "[2..5] = [2, 3, 4, 5::int]" by code_simp
  have r1: "parsePhaseRange (NotArray (Str (''2'' @ ''-'' @ ''5'')))
      = Inr (PhaseArray [Number (Finite 2), Number (Finite 3), Number (Finite 4), Number (Finite 5)])"
    using parsePhaseRange_range [of "[]" "''2''" "''5''"] d
    by (simp only: v u) simp
  have r2: "parsePhaseRange (NotArray (Str (''5'' @ ''-'' @ ''2''))) = Inr (PhaseArray [])"
    using parsePhaseRange_range [of "[]" "''5''" "''2''"] d
    by (simp only: v) simp
  show ?thesis
    using r1 r2 d by (simp add: v)
qed

section \<open>Properties of validation\<close>

lemma content_addError:
  "map content (addError ids t m f i e errors)
     = map content errors @ [(t, m, f, i, case e of Some x \<Rightarrow> x | None \<Rightarrow> Client)]"
  by (simp add: addError_def content_def)

lemma content_guard:
  "map content (guard b (addError ids t m f i e) errors)
     = map content errors @ (if b then [(t, m, f, i, case e of Some x \<Rightarrow> x | None \<Rightarrow> Client)] else [])"
  by (simp add: guard_def content_addError)

lemma forEach_alike:
  assumes step: "\<And>i x s s'. alike s s' \<Longrightarrow> alike (f i x s) (g i x s')"
  shows "alike s s' \<Longrightarrow> alike (forEach f k xs s) (forEach g k xs s')"
  by (induction xs arbitrary: k s s') (simp_all add: step)

lemma forEach_content:
  assumes step: "\<And>i x e e'. map content e = map content e' \<Longrightarrow>
      map content (f i x e) = map content (g i x e')"
  shows "map content e = map content e' \<Longrightarrow>
      map content (forEach f k xs e) = map content (forEach g k xs e')"
  by (induction xs arbitrary: k e e') (simp_all add: step)

lemma fold_content:
  assumes step: "\<And>x e e'. map content e = map content e' \<Longrightarrow>
      map content (f x e) = map content (g x e')"
  shows "map content e = map content e' \<Longrightarrow>
      map content (fold f xs e) = map content (fold g xs e')"
  by (induction xs arbitrary: e e') (simp_all add: step)

lemma validateClient_alike:
  "alike s s' \<Longrightarrow> alike (validateClient ids i c s) (validateClient ids' i c s')"
  by (simp add: alike_def validateClient_def Let_def content_guard)

lemma validateTask_alike:
  "alike s s' \<Longrightarrow> alike (validateTask ids i t s) (validateTask ids' i t s')"
  by (simp add: alike_def validateTask_def Let_def content_guard content_addError
      split: arrayish.splits prim.splits)

lemma validateClients_content:
  "map content e = map content e' \<Longrightarrow>
     map content (validateClients ids clients e) = map content (validateClients ids' clients e')"
  using forEach_alike [of "validateClient ids" "validateClient ids'" "({}, e)" "({}, e')" 0 clients,
      OF validateClient_alike]
  by (simp add: validateClients_def alike_def)

lemma validateTasks_content:
  "map content e = map content e' \<Longrightarrow>
     map content (validateTasks ids tasks e) = map content (validateTasks ids' tasks e')"
  using forEach_alike [of "validateTask ids" "validateTask ids'" "({}, e)" "({}, e')" 0 tasks,
      OF validateTask_alike]
  by (simp add: validateTasks_def alike_def)

lemma validateWorker_alike:
  "alike s s' \<Longrightarrow> alikeM (validateWorker ids i w s) (validateWorker ids' i w s')"
  by (cases "lengthOf (AvailableSlots w)")
    (simp_all add: alike_def alikeM_def validateWorker_def Let_def content_guard content_addError
      split: arrayish.splits)

lemma forEachM_alike:
  assumes step: "\<And>i x s s'. alike s s' \<Longrightarrow> alikeM (f i x s) (g i x s')"
  shows "alike s s' \<Longrightarrow> alikeM (forEachM f k xs s) (forEachM g k xs s')"
proof (induction xs arbitrary: k s s')
  case Nil
  then show ?case by (simp add: alikeM_def)
next
  case (Cons x xs)
  note st = step [OF Cons.prems, of k x]
  show ?case
  proof (cases "f k x s")
    case (Inl e)
    with st have "g k x s' = Inl e" by (simp add: alikeM_def)
    with Inl show ?thesis by (simp add: alikeM_def)
  next
    case (Inr t)
    with st obtain t' where g: "g k x s' = Inr t'" and a: "alike t t'"
      by (auto simp: alikeM_def split: sum.splits)
    from Cons.IH [OF a, of "Suc k"] Inr g show ?thesis by simp
  qed
qed

lemma validateWorkers_content:
  assumes "map content e = map content e'"
  shows "map_sum id (map content) (validateWorkers ids workers e)
       = map_sum id (map content) (validateWorkers ids' workers e')"
proof -
  have "alike ({}, e) ({}, e')"
    using assms by (simp add: alike_def)
  from forEachM_alike [of "validateWorker ids" "validateWorker ids'", OF validateWorker_alike this,
      of 0 workers]
  show ?thesis
    by (auto simp: validateWorkers_def alikeM_def alike_def split: sum.splits)
qed

lemma validateCrossReferences_content:
  assumes "map content e = map content e'"
  shows "map content (validateCrossReferences ids clients workers tasks e)
       = map content (validateCrossReferences ids' clients workers tasks e')"
proof -
  have c: "map content (checkClientReferences ids T i x a) = map content (checkClientReferences ids' T i x a')"
    if "map content a = map content a'" for T i x a a'
    using that by (simp add: checkClientReferences_def Let_def content_guard)
  have t: "map content (checkTaskSkills ids S i x a) = map content (checkTaskSkills ids' S i x a')"
    if "map content a = map content a'" for S i x a a'
    using that by (simp add: checkTaskSkills_def Let_def content_guard)
  show ?thesis
    unfolding validateCrossReferences_def Let_def
    by (intro forEach_content c t assms)
qed

lemma validateCapacityConstraints_content:
  assumes "map content e = map content e'"
  shows "map content (validateCapacityConstraints ids workers tasks e)
       = map content (validateCapacityConstraints ids' workers tasks e')"
proof -
  have c: "map content (checkPhase ids m x a) = map content (checkPhase ids' m x a')"
    if "map content a = map content a'" for m x a a'
    using that by (simp add: checkPhase_def Let_def content_guard)
  show ?thesis
    unfolding validateCapacityConstraints_def Let_def
    by (intro fold_content c assms)
qed

text \<open>
  C8: two runs of \<open>validateAll\<close> on the same three collections, with any two sources of
  identifiers, both raise the same exception or return lists that are equal issue by
  issue in severity, message, field, row index and entity tag.
\<close>

theorem validateAll_deterministic:
  "map_sum id (map content) (validateAll ids clients workers tasks)
     = map_sum id (map content) (validateAll ids' clients workers tasks)"
proof -
  have c: "map content (validateClients ids clients []) = map content (validateClients ids' clients [])"
    by (rule validateClients_content) simp
  note w = validateWorkers_content [OF c, of ids workers ids']
  show ?thesis
  proof (cases "validateWorkers ids workers (validateClients ids clients [])")
    case (Inl e)
    with w have "validateWorkers ids' workers (validateClients ids' clients []) = Inl e"
      by (cases "validateWorkers ids' workers (validateClients ids' clients [])") simp_all
    with Inl show ?thesis by (simp add: validateAll_def)
  next
    case (Inr e1)
    with w obtain e2 where r: "validateWorkers ids' workers (validateClients ids' clients []) = Inr e2"
      and eq: "map content e1 = map content e2"
      by (cases "validateWorkers ids' workers (validateClients ids' clients [])") simp_all
    have "map content (validateCapacityConstraints ids workers tasks
              (validateCrossReferences ids clients workers tasks (validateTasks ids tasks e1)))
        = map content (validateCapacityConstraints ids' workers tasks
              (validateCrossReferences ids' clients workers tasks (validateTasks ids' tasks e2)))"
      by (intro validateCapacityConstraints_content validateCrossReferences_content
          validateTasks_content eq)
    with Inr r show ?thesis by (simp add: validateAll_def)
  qed
qed

lemma validateWorker_raises:
  "AvailableSlots w = NotArray Null \<or> AvailableSlots w = NotArray Undefined \<Longrightarrow>
     validateWorker ids i w st = Inl TypeError"
  by (auto simp: validateWorker_def lengthOf_def Let_def)

lemma forEachM_raises:
  "x \<in> set xs \<Longrightarrow> (\<And>i s. f i x s = Inl e) \<Longrightarrow> (\<And>i y s. \<exists>r. f i y s = Inl e \<or> f i y s = Inr r)
     \<Longrightarrow> forEachM f k xs s = Inl e"
proof (induction xs arbitrary: k s)
  case Nil
  then show ?case by simp
next
  case (Cons y ys)
  show ?case
  proof (cases "f k y s")
    case (Inl e')
    with Cons.prems(3) [of k y s] show ?thesis by auto
  next
    case (Inr s')
    with Cons.prems(2) [of k s] have "x \<noteq> y" by auto
    with Cons.prems(1) have "x \<in> set ys" by simp
    from Cons.IH [OF this Cons.prems(2,3)] Inr show ?thesis by simp
  qed
qed

lemma validateWorker_only_TypeError:
  "\<exists>r. validateWorker ids i w s = Inl TypeError \<or> validateWorker ids i w s = Inr r"
  by (auto simp: validateWorker_def lengthOf_def Let_def split: arrayish.splits prim.splits)

lemma validateAll_raises:
  assumes "w \<in> set workers"
    and "AvailableSlots w = NotArray Null \<or> AvailableSlots w = NotArray Undefined"
  shows "validateAll ids clients workers tasks = Inl TypeError"
proof -
  have "forEachM (validateWorker ids) 0 workers ({}, validateClients ids clients []) = Inl TypeError"
  proof (rule forEachM_raises [OF assms(1)])
    show "validateWorker ids i w s = Inl TypeError" for i s
      by (rule validateWorker_raises [OF assms(2)])
    show "\<exists>r. validateWorker ids i y s = Inl TypeError \<or> validateWorker ids i y s = Inr r" for i y s
      by (rule validateWorker_only_TypeError)
  qed
  then show ?thesis
    by (simp add: validateAll_def validateWorkers_def)
qed

text \<open>
  C7: a worker whose \<open>AvailableSlots\<close> is \<open>null\<close> (what the grid stores when the cell is
  edited to the JSON text \<open>null\<close>) gets the issue \<open>AvailableSlots must be an array\<close>, and
  then \<open>worker.AvailableSlots.length\<close> throws: the whole validation raises a \<open>TypeError\<close>
  and returns no issue list. With a string in the field, the same row is validated to
  its end.
\<close>

theorem validateAll_null_slots_raises:
  "validateAll (\<lambda>n. ''id'') []
     [\<lparr>WorkerID = ''W1'', WorkerName = ''Ann'', Skills = Array [''welding''],
       AvailableSlots = NotArray Null, MaxLoadPerPhase = Finite 1, WorkerGroup = ''A'',
       QualificationLevel = Finite 1\<rparr>] []
     = Inl TypeError
   \<and> map_sum id (map content)
       (validateAll (\<lambda>n. ''id'') []
         [\<lparr>WorkerID = ''W1'', WorkerName = ''Ann'', Skills = Array [''welding''],
           AvailableSlots = NotArray (Str ''1,2''), MaxLoadPerPhase = Finite 5, WorkerGroup = ''A'',
           QualificationLevel = Finite 1\<rparr>] [])
     = Inr [(Error, ''AvailableSlots must be an array'', Some ''AvailableSlots'', Some 0, Worker),
            (Warning, ''Worker has more max load than available slots'', Some ''MaxLoadPerPhase'',
             Some 0, Worker)]"
  by code_simp

subsection \<open>Duplicate identifiers\<close>















subsection \<open>Cross references\<close>

lemma forEach_closed:
  assumes step: "\<And>i x e. map content (f i x e) = map content e @ G i x"
  shows "map content (forEach f k xs e)
       = map content e @ concat (map (\<lambda>(i, x). G i x) (enumerate k xs))"
  by (induction xs arbitrary: k e) (simp_all add: step)

lemma rows_of_concat:
  assumes key: "\<And>i x t. t \<in> set (G i x) \<Longrightarrow> key t = h i" and inj: "inj h"
  shows "[t \<leftarrow> concat (map (\<lambda>(i, x). G i x) (enumerate k xs)). key t = h j]
       = (if k \<le> j \<and> j < k + length xs then G j (xs ! (j - k)) else [])"
proof (induction xs arbitrary: k)
  case Nil
  show ?case by auto
next
  case (Cons x xs)
  have here: "[t \<leftarrow> G k x. key t = h j] = (if k = j then G k x else [])"
  proof (cases "k = j")
    case True
    then show ?thesis using key [of _ k x] by (simp add: filter_id_conv)
  next
    case False
    then have "h k \<noteq> h j" using inj by (simp add: inj_eq)
    then show ?thesis using False key [of _ k x] by (simp add: filter_empty_conv)
  qed
  show ?case
  proof (cases "k = j")
    case True
    have a: "[t \<leftarrow> G j x. key t = h j] = G j x"
      using key [of _ j x] by (simp add: filter_id_conv)
    have b: "[t \<leftarrow> concat (map (\<lambda>(i, x). G i x) (enumerate (Suc j) xs)). key t = h j] = []"
      using Cons.IH [of "Suc j"] by simp
    show ?thesis unfolding True by (simp add: a b)
  next
    case False
    have a: "[t \<leftarrow> G k x. key t = h j] = []"
      using here False by simp
    show ?thesis
    proof (cases "Suc k \<le> j")
      case True
      then have "j - k = Suc (j - Suc k)" by arith
      with True False show ?thesis by (simp add: a Cons.IH [of "Suc k"])
    next
      case nle: False
      with False show ?thesis by (simp add: a Cons.IH [of "Suc k"])
    qed
  qed
qed

lemma rows_of_concat_none:
  assumes key: "\<And>i x t. t \<in> set (G i x) \<Longrightarrow> key t \<noteq> a"
  shows "[t \<leftarrow> concat (map (\<lambda>(i, x). G i x) (enumerate k xs)). key t = a] = []"
  by (auto simp: filter_empty_conv in_set_enumerate_eq dest: key)

lemma validateCrossReferences_closed:
  "map content (validateCrossReferences ids clients workers tasks e)
     = map content e
       @ concat (map (\<lambda>(i, c). unknownTasksIssue i (invalidTasksOf (set (map TaskID tasks)) c))
                  (enumerate 0 clients))
       @ concat (map (\<lambda>(j, t). unmetSkillsIssue j
                       (unavailableSkillsOf (set (concat (map flatSkills workers))) t))
                  (enumerate 0 tasks))"
proof -
  have c: "map content (checkClientReferences ids T i x a)
      = map content a @ unknownTasksIssue i (invalidTasksOf T x)" for T i x a
    by (simp add: checkClientReferences_def Let_def content_guard unknownTasksIssue_def)
  have t: "map content (checkTaskSkills ids S i x a)
      = map content a @ unmetSkillsIssue i (unavailableSkillsOf S x)" for S i x a
    by (simp add: checkTaskSkills_def Let_def content_guard unmetSkillsIssue_def)
  show ?thesis
    unfolding validateCrossReferences_def Let_def
    by (simp add: forEach_closed [where G = "\<lambda>i x. unknownTasksIssue i (invalidTasksOf _ x)", OF c]
        forEach_closed [where G = "\<lambda>i x. unmetSkillsIssue i (unavailableSkillsOf _ x)", OF t])
qed

lemma added_rows:
  assumes "map content r = map content base @ added"
  shows "map content [e \<leftarrow> drop (length base) r. entityTag e = E \<and> rowIndex e = R]
       = [t \<leftarrow> added. tagAndRow t = (E, R)]"
proof -
  have l: "length base \<le> length r"
    using arg_cong [OF assms, of length] by simp
  have "map content (drop (length base) r) = drop (length (map content base)) (map content r)"
    by (simp add: drop_map)
  also have "\<dots> = added"
    unfolding assms by simp
  finally have d: "map content (drop (length base) r) = added" .
  have "map content [e \<leftarrow> drop (length base) r. entityTag e = E \<and> rowIndex e = R]
      = [t \<leftarrow> map content (drop (length base) r). tagAndRow t = (E, R)]"
    by (simp add: filter_map comp_def content_def tagAndRow_def)
  then show ?thesis by (simp only: d)
qed

text \<open>
  C6: among the issues that the cross-reference check adds, those of client row \<open>i\<close> are
  exactly one error listing all the requested ids that are no \<open>TaskID\<close>, joined with
  commas, when \<open>RequestedTaskIDs\<close> is an array with such an id, and none otherwise; and
  those of task row \<open>j\<close> are exactly one error listing all the required skills that no
  worker has, when \<open>RequiredSkills\<close> is an array with such a skill, and none otherwise.
\<close>

theorem crossReferences_one_issue_per_row:
  "(i < length clients \<and> RequestedTaskIDs (clients ! i) = Array requested \<longrightarrow>
      map content [e \<leftarrow> drop (length e0) (validateCrossReferences ids clients workers tasks e0).
                     entityTag e = Client \<and> rowIndex e = Some i]
      = (let unknown = [t \<leftarrow> requested. t \<notin> TaskID ` set tasks] in
         if unknown = [] then []
         else [(Error, ''Unknown task references: '' @ join '', '' unknown,
                Some ''RequestedTaskIDs'', Some i, Client)]))
   \<and> (j < length tasks \<and> RequiredSkills (tasks ! j) = Array required \<longrightarrow>
      map content [e \<leftarrow> drop (length e0) (validateCrossReferences ids clients workers tasks e0).
                     entityTag e = Task \<and> rowIndex e = Some j]
      = (let unmet = [s \<leftarrow> required. \<forall>w \<in> set workers. Str s \<notin> set (flatSkills w)] in
         if unmet = [] then []
         else [(Error, ''No workers have required skills: '' @ join '', '' unmet,
                Some ''RequiredSkills'', Some j, Task)]))
   \<and> (\<forall>xs. Skills w = Array xs \<longrightarrow> (Str s \<in> set (flatSkills w)) = (s \<in> set xs))"
proof (intro conjI impI allI)
  note closed = validateCrossReferences_closed [of ids clients workers tasks e0]
  have kc: "tagAndRow t = (Client, Some i)" if "t \<in> set (unknownTasksIssue i u)" for t i u
    using that by (auto simp: unknownTasksIssue_def tagAndRow_def split: if_splits)
  have kt: "tagAndRow t = (Task, Some i)" if "t \<in> set (unmetSkillsIssue i u)" for t i u
    using that by (auto simp: unmetSkillsIssue_def tagAndRow_def split: if_splits)
  have ic: "inj (\<lambda>i. (Client, Some i))" and it: "inj (\<lambda>i. (Task, Some i))"
    by (simp_all add: inj_def)
  {
    assume h: "i < length clients \<and> RequestedTaskIDs (clients ! i) = Array requested"
    have "[t \<leftarrow> concat (map (\<lambda>(j, t). unmetSkillsIssue j
              (unavailableSkillsOf (set (concat (map flatSkills workers))) t)) (enumerate 0 tasks)).
            tagAndRow t = (Client, Some i)] = []"
      by (rule rows_of_concat_none) (auto dest: kt)
    moreover have "[t \<leftarrow> concat (map (\<lambda>(i, c). unknownTasksIssue i
              (invalidTasksOf (set (map TaskID tasks)) c)) (enumerate 0 clients)).
            tagAndRow t = (Client, Some i)]
        = unknownTasksIssue i (invalidTasksOf (set (map TaskID tasks)) (clients ! i))"
      using rows_of_concat [where G = "\<lambda>i c. unknownTasksIssue i (invalidTasksOf (set (map TaskID tasks)) c)"
          and key = tagAndRow and h = "\<lambda>i. (Client, Some i)" and k = 0 and xs = clients and j = i,
          OF kc ic] h
      by simp
    ultimately show "map content [e \<leftarrow> drop (length e0) (validateCrossReferences ids clients workers tasks e0).
                     entityTag e = Client \<and> rowIndex e = Some i]
      = (let unknown = [t \<leftarrow> requested. t \<notin> TaskID ` set tasks] in
         if unknown = [] then []
         else [(Error, ''Unknown task references: '' @ join '', '' unknown,
                Some ''RequestedTaskIDs'', Some i, Client)])"
      using h by (simp add: added_rows [OF closed] unknownTasksIssue_def invalidTasksOf_def Let_def)
  }
  {
    assume h: "j < length tasks \<and> RequiredSkills (tasks ! j) = Array required"
    have "[t \<leftarrow> concat (map (\<lambda>(i, c). unknownTasksIssue i
              (invalidTasksOf (set (map TaskID tasks)) c)) (enumerate 0 clients)).
            tagAndRow t = (Task, Some j)] = []"
      by (rule rows_of_concat_none) (auto dest: kc)
    moreover have "[t \<leftarrow> concat (map (\<lambda>(j, t). unmetSkillsIssue j
              (unavailableSkillsOf (set (concat (map flatSkills workers))) t)) (enumerate 0 tasks)).
            tagAndRow t = (Task, Some j)]
        = unmetSkillsIssue j (unavailableSkillsOf (set (concat (map flatSkills workers))) (tasks ! j))"
      using rows_of_concat [where G = "\<lambda>j t. unmetSkillsIssue j
              (unavailableSkillsOf (set (concat (map flatSkills workers))) t)"
          and key = tagAndRow and h = "\<lambda>i. (Task, Some i)" and k = 0 and xs = tasks and j = j,
          OF kt it] h
      by simp
    moreover have "[s \<leftarrow> required. Str s \<notin> set (concat (map flatSkills workers))]
        = [s \<leftarrow> required. \<forall>w \<in> set workers. Str s \<notin> set (flatSkills w)]"
      by (rule filter_cong) auto
    ultimately show "map content [e \<leftarrow> drop (length e0) (validateCrossReferences ids clients workers tasks e0).
                     entityTag e = Task \<and> rowIndex e = Some j]
      = (let unmet = [s \<leftarrow> required. \<forall>w \<in> set workers. Str s \<notin> set (flatSkills w)] in
         if unmet = [] then []
         else [(Error, ''No workers have required skills: '' @ join '', '' unmet,
                Some ''RequiredSkills'', Some j, Task)])"
      using h by (simp add: added_rows [OF closed] unmetSkillsIssue_def unavailableSkillsOf_def Let_def)
  }
  {
    fix xs
    assume "Skills w = Array xs"
    then show "(Str s \<in> set (flatSkills w)) = (s \<in> set xs)"
      by (auto simp: flatSkills_def)
  }
qed

theorem crossReferences_one_issue_per_row_witness:
  "(0 < length weldingClients
      \<and> RequestedTaskIDs (weldingClients ! 0) = Array [''T1'', ''T9'', ''T8''])
   \<and> (0 < length weldingTasks
      \<and> RequiredSkills (weldingTasks ! 0) = Array [''welding'', ''painting''])
   \<and> Skills (weldingWorkers ! 0) = Array [''painting'']
   \<and> map content [e \<leftarrow> validateCrossReferences (\<lambda>n. ''id'') weldingClients weldingWorkers weldingTasks [].
                     entityTag e = Client \<and> rowIndex e = Some 0]
     = [(Error, ''Unknown task references: T9, T8'', Some ''RequestedTaskIDs'', Some 0, Client)]
   \<and> map content [e \<leftarrow> validateCrossReferences (\<lambda>n. ''id'') weldingClients weldingWorkers weldingTasks [].
                     entityTag e = Task \<and> rowIndex e = Some 0]
     = [(Error, ''No workers have required skills: welding'', Some ''RequiredSkills'', Some 0, Task)]
   \<and> Str ''painting'' \<in> set (flatSkills (weldingWorkers ! 0))"
proof -
  have c: "0 < length weldingClients
      \<and> RequestedTaskIDs (weldingClients ! 0) = Array [''T1'', ''T9'', ''T8'']"
    by (simp add: weldingClients_def)
  have t: "0 < length weldingTasks
      \<and> RequiredSkills (weldingTasks ! 0) = Array [''welding'', ''painting'']"
    by (simp add: weldingTasks_def)
  have w: "Skills (weldingWorkers ! 0) = Array [''painting'']"
    by (simp add: weldingWorkers_def)
  have unknown: "[t \<leftarrow> [''T1'', ''T9'', ''T8'']. t \<notin> TaskID ` set weldingTasks] = [''T9'', ''T8'']"
    by code_simp
  have unmet: "[s \<leftarrow> [''welding'', ''painting'']. \<forall>w \<in> set weldingWorkers. Str s \<notin> set (flatSkills w)]
      = [''welding'']"
    by code_simp
  have j1: "join '', '' [''T9'', ''T8''] = ''T9, T8''"
    by code_simp
  have j2: "join '', '' [''welding''] = ''welding''"
    by code_simp
  show ?thesis
    using crossReferences_one_issue_per_row [where i = 0 and j = 0 and clients = weldingClients
        and workers = weldingWorkers and tasks = weldingTasks and ?e0.0 = "[]"
        and ids = "\<lambda>n. ''id''" and requested = "[''T1'', ''T9'', ''T8'']"
        and required = "[''welding'', ''painting'']" and w = "weldingWorkers ! 0"
        and s = "''painting''"] c t w
    apply (simp only: Let_def unknown unmet j1 j2)
    apply simp
    done
qed

subsection \<open>Capacity\<close>

lemma isSafeInteger_finite: "isSafeInteger n \<Longrightarrow> isFinite n"
  by (cases n) (simp_all add: isSafeInteger_def isFinite_def)

lemma total_append: "total (cs @ ds) q = total cs q + total ds q"
  by (simp add: total_def)

lemma total_same_amount:
  "total (map (\<lambda>p. (p, a)) ps) q = of_nat (count_list ps q) * amountOf a"
  by (induction ps) (simp_all add: total_def algebra_simps)

lemma total_entries:
  "total (entries phases amount xs) q
     = (\<Sum>x\<leftarrow>xs. of_nat (count_list (phases x) q) * amountOf (amount x))"
  by (induction xs) (simp_all add: entries_def total_append total_same_amount, simp add: total_def)

lemma total_absent: "q \<notin> fst ` set cs \<Longrightarrow> total cs q = 0"
  by (induction cs) (auto simp: total_def)

lemma firstOccurrences_snoc:
  "firstOccurrences (xs @ [x])
     = (if x \<in> set xs then firstOccurrences xs else firstOccurrences xs @ [x])"
  by (simp add: firstOccurrences_def)

lemma distinct_firstOccurrences: "distinct (firstOccurrences xs)"
  by (simp add: firstOccurrences_def)

lemma set_firstOccurrences: "set (firstOccurrences xs) = set xs"
  by (simp add: firstOccurrences_def)

text \<open>The two loops that fill a map are one loop over the pairs.\<close>

lemma fold_addSlots:
  "fold addSlots workers m
     = fold (\<lambda>c. accumulate (snd c) (fst c)) (entries slotsOf MaxLoadPerPhase workers) m"
  by (induction workers arbitrary: m)
    (simp_all add: entries_def addSlots_def slotsOf_def fold_map comp_def split: arrayish.split)

lemma fold_addDemand:
  "fold addDemand tasks m
     = fold (\<lambda>c. accumulate (snd c) (fst c)) (entries phasesOf Duration tasks) m"
  by (induction tasks arbitrary: m)
    (simp_all add: entries_def addDemand_def phasesOf_def fold_map comp_def split: arrayish.split)

text \<open>
  The map after the loop: its keys are the phases in the order of their first occurrence,
  and the value of a phase is the sum of the amounts added for it.
\<close>

lemma accumulated:
  assumes "\<forall>c \<in> set cs. isFinite (snd c)"
  shows "map fst (fold (\<lambda>c. accumulate (snd c) (fst c)) cs []) = firstOccurrences (map fst cs)
       \<and> (\<forall>q. map_of (fold (\<lambda>c. accumulate (snd c) (fst c)) cs []) q
               = (if q \<in> fst ` set cs then Some (Finite (total cs q)) else None))"
  using assms
proof (induction cs rule: rev_induct)
  case Nil
  show ?case by (simp add: firstOccurrences_def)
next
  case (snoc c cs)
  define m where "m = fold (\<lambda>c. accumulate (snd c) (fst c)) cs []"
  obtain p a where c: "c = (p, a)" by (cases c)
  from snoc.prems c obtain r where a: "a = Finite r"
    by (cases a) (simp_all add: isFinite_def)
  from snoc have keys: "map fst m = firstOccurrences (map fst cs)"
    and vals: "\<And>q. map_of m q = (if q \<in> fst ` set cs then Some (Finite (total cs q)) else None)"
    by (simp_all add: m_def)
  have g: "getOrZero m p = Finite (total cs p)"
    by (simp add: getOrZero_def vals logicalOr_def truthy_def total_absent)
  have step: "fold (\<lambda>c. accumulate (snd c) (fst c)) (cs @ [c]) []
      = AList.update p (Finite (total cs p + r)) m"
    by (simp add: m_def [symmetric] c a accumulate_def g)
  have k: "map fst (AList.update p (Finite (total cs p + r)) m) = firstOccurrences (map fst (cs @ [c]))"
    by (simp add: update_keys keys firstOccurrences_snoc set_firstOccurrences c)
  have t: "total (cs @ [(p, a)]) q = total cs q + (if p = q then r else 0)" for q
    by (simp add: total_def a amountOf_def)
  have v: "map_of (AList.update p (Finite (total cs p + r)) m) q
      = (if q \<in> fst ` set (cs @ [c]) then Some (Finite (total (cs @ [c]) q)) else None)" for q
    by (auto simp: update_conv' vals t c)
  show ?case
    unfolding step using k v by blast
qed

lemma entries_of_distinct:
  "distinct (map fst m) \<Longrightarrow> m = map (\<lambda>k. (k, the (map_of m k))) (map fst m)"
proof (induction m)
  case Nil
  show ?case by simp
next
  case (Cons e m)
  obtain k v where e: "e = (k, v)" by (cases e)
  from Cons.prems e have fresh: "k \<notin> set (map fst m)" and d: "distinct (map fst m)"
    by simp_all
  have "map (\<lambda>x. (x, the (map_of ((k, v) # m) x))) (map fst m)
      = map (\<lambda>x. (x, the (map_of m x))) (map fst m)"
  proof (rule map_cong [OF refl])
    fix x
    assume "x \<in> set (map fst m)"
    with fresh have "x \<noteq> k" by blast
    then show "(x, the (map_of ((k, v) # m) x)) = (x, the (map_of m x))" by simp
  qed
  also have "\<dots> = m"
    using Cons.IH [OF d] by simp
  finally show ?case
    by (simp add: e)
qed

lemma accumulated_entries:
  assumes "\<forall>c \<in> set cs. isFinite (snd c)"
  shows "fold (\<lambda>c. accumulate (snd c) (fst c)) cs []
       = map (\<lambda>p. (p, Finite (total cs p))) (firstOccurrences (map fst cs))"
proof -
  define m where "m = fold (\<lambda>c. accumulate (snd c) (fst c)) cs []"
  from accumulated [OF assms] have keys: "map fst m = firstOccurrences (map fst cs)"
    and vals: "\<And>q. map_of m q = (if q \<in> fst ` set cs then Some (Finite (total cs q)) else None)"
    by (simp_all add: m_def)
  have "distinct (map fst m)"
    by (simp add: keys distinct_firstOccurrences)
  from entries_of_distinct [OF this]
  have "m = map (\<lambda>k. (k, the (map_of m k))) (firstOccurrences (map fst cs))"
    by (simp only: keys)
  also have "\<dots> = map (\<lambda>p. (p, Finite (total cs p))) (firstOccurrences (map fst cs))"
    by (rule map_cong [OF refl]) (simp add: vals set_firstOccurrences)
  finally show ?thesis by (simp only: m_def)
qed

lemma accumulated_getOrZero:
  assumes "\<forall>c \<in> set cs. isFinite (snd c)"
  shows "getOrZero (fold (\<lambda>c. accumulate (snd c) (fst c)) cs []) p = Finite (total cs p)"
  using accumulated [OF assms]
  by (simp add: getOrZero_def logicalOr_def truthy_def total_absent)

text \<open>The last loop: one issue for each entry of the demand map that exceeds its supply.\<close>

lemma checkPhase_loop:
  "map content (fold (checkPhase ids phaseSlots) phaseDemand e)
     = map content e
       @ concat (map (\<lambda>(p, d). if greaterThan d (getOrZero phaseSlots p)
                     then [(Warning,
                            ''Phase '' @ ToStringPrim p @ '' is oversaturated: '' @ NumberToString d
                              @ '' duration needed, '' @ NumberToString (getOrZero phaseSlots p)
                              @ '' slots available'',
                            None, None, Task)]
                     else []) phaseDemand)"
  by (induction phaseDemand arbitrary: e)
    (simp_all add: checkPhase_def Let_def content_guard split_beta)

lemma concat_if_singleton:
  "concat (map (\<lambda>x. if P x then [f x] else []) xs) = map f (filter P xs)"
  by (induction xs) simp_all

lemma entries_finite:
  "\<forall>x \<in> set xs. isFinite (amount x) \<Longrightarrow> \<forall>c \<in> set (entries phases amount xs). isFinite (snd c)"
  by (auto simp: entries_def)

lemma map_fst_entries: "map fst (entries phases amount xs) = concat (map phases xs)"
  by (induction xs) (simp_all add: entries_def comp_def)

text \<open>
  C4: on workers and tasks whose loads and durations are integers, with totals within the
  integers that a double holds exactly, the capacity check adds to the issue list exactly
  one warning for each phase of the tasks' explicit phase lists whose demand exceeds its
  supply, in the order in which the phases first occur, with the phase, the demand and the
  supply in its message, and nothing else. Supply is the sum of \<open>MaxLoadPerPhase\<close> over the
  workers' slots, demand the sum of \<open>Duration\<close> over the tasks' phases; a task whose
  \<open>PreferredPhases\<close> is no array (a range literal) has no phases, and a phase that no
  worker offers has supply 0.
\<close>

theorem capacity_warnings:
  assumes loads: "\<forall>w \<in> set workers. isSafeInteger (MaxLoadPerPhase w)"
    and durations: "\<forall>t \<in> set tasks. isSafeInteger (Duration t)"
    and loadTotal: "(\<Sum>w\<leftarrow>workers. of_nat (length (slotsOf w)) * \<bar>amountOf (MaxLoadPerPhase w)\<bar>)
                   \<le> 9007199254740991"
    and durationTotal: "(\<Sum>t\<leftarrow>tasks. of_nat (length (phasesOf t)) * \<bar>amountOf (Duration t)\<bar>)
                   \<le> 9007199254740991"
    and exact: "\<forall>p \<in> set (concat (map slotsOf workers) @ concat (map phasesOf tasks)). exactPhase p"
  shows "map content (validateCapacityConstraints ids workers tasks e0)
       = map content e0
         @ map (\<lambda>p. (Warning,
                     ''Phase '' @ ToStringPrim p @ '' is oversaturated: ''
                       @ NumberToString (Finite (demandAt tasks p)) @ '' duration needed, ''
                       @ NumberToString (Finite (supplyAt workers p)) @ '' slots available'',
                     None, None, Task))
             [p \<leftarrow> firstOccurrences (concat (map phasesOf tasks)).
                supplyAt workers p < demandAt tasks p]"
proof -
  have fw: "\<forall>c \<in> set (entries slotsOf MaxLoadPerPhase workers). isFinite (snd c)"
    using loads by (intro entries_finite) (simp add: isSafeInteger_finite)
  have ft: "\<forall>c \<in> set (entries phasesOf Duration tasks). isFinite (snd c)"
    using durations by (intro entries_finite) (simp add: isSafeInteger_finite)
  have s: "getOrZero (fold addSlots workers []) p = Finite (supplyAt workers p)" for p
    by (simp add: fold_addSlots accumulated_getOrZero [OF fw] total_entries supplyAt_def)
  have d: "fold addDemand tasks []
      = map (\<lambda>p. (p, Finite (demandAt tasks p))) (firstOccurrences (concat (map phasesOf tasks)))"
    by (simp add: fold_addDemand accumulated_entries [OF ft] total_entries demandAt_def
        map_fst_entries)
  show ?thesis
    unfolding validateCapacityConstraints_def Let_def checkPhase_loop d
    by (simp add: s comp_def greaterThan_def concat_if_singleton)
qed

theorem capacity_warnings_witness:
  "map MaxLoadPerPhase scenarioDWorkers = [Finite 1, Finite 2]
   \<and> map slotsOf scenarioDWorkers = [[Number (Finite 1), Number (Finite 2)], [Number (Finite 1)]]
   \<and> map Duration scenarioDTasks = [Finite 10, Finite 50]
   \<and> map PreferredPhases scenarioDTasks = [Array [Number (Finite 1)], NotArray (Str ''1-3'')]
   \<and> map phasesOf scenarioDTasks = [[Number (Finite 1)], []]
   \<and> map content (validateCapacityConstraints (\<lambda>n. ''id'') scenarioDWorkers scenarioDTasks [])
     = [(Warning, ''Phase 1 is oversaturated: 10 duration needed, 3 slots available'',
         None, None, Task)]"
proof -
  have w: "map MaxLoadPerPhase scenarioDWorkers = [Finite 1, Finite 2]
      \<and> map slotsOf scenarioDWorkers = [[Number (Finite 1), Number (Finite 2)], [Number (Finite 1)]]"
    by (simp add: scenarioDWorkers_def slotsOf_def)
  have t: "map Duration scenarioDTasks = [Finite 10, Finite 50]
      \<and> map PreferredPhases scenarioDTasks = [Array [Number (Finite 1)], NotArray (Str ''1-3'')]
      \<and> map phasesOf scenarioDTasks = [[Number (Finite 1)], []]"
    by (simp add: scenarioDTasks_def phasesOf_def)
  have h1: "\<forall>w \<in> set scenarioDWorkers. isSafeInteger (MaxLoadPerPhase w)"
    by (simp add: scenarioDWorkers_def isSafeInteger_def)
  have h2: "\<forall>t \<in> set scenarioDTasks. isSafeInteger (Duration t)"
    by (simp add: scenarioDTasks_def isSafeInteger_def)
  have h3: "(\<Sum>w\<leftarrow>scenarioDWorkers. of_nat (length (slotsOf w)) * \<bar>amountOf (MaxLoadPerPhase w)\<bar>)
      \<le> 9007199254740991"
    by (simp add: scenarioDWorkers_def slotsOf_def amountOf_def)
  have h4: "(\<Sum>t\<leftarrow>scenarioDTasks. of_nat (length (phasesOf t)) * \<bar>amountOf (Duration t)\<bar>)
      \<le> 9007199254740991"
    by (simp add: scenarioDTasks_def phasesOf_def amountOf_def)
  have h5: "\<forall>p \<in> set (concat (map slotsOf scenarioDWorkers) @ concat (map phasesOf scenarioDTasks)).
      exactPhase p"
    by (simp add: w t exactPhase_def isSafeInteger_def)
  have f: "firstOccurrences (concat (map phasesOf scenarioDTasks)) = [Number (Finite 1)]"
    by (simp add: t firstOccurrences_def)
  have sup: "supplyAt scenarioDWorkers (Number (Finite 1)) = 3"
    by (simp add: supplyAt_def scenarioDWorkers_def slotsOf_def amountOf_def)
  have dem: "demandAt scenarioDTasks (Number (Finite 1)) = 10"
    by (simp add: demandAt_def scenarioDTasks_def phasesOf_def amountOf_def)
  have m: "ToStringPrim (Number (Finite 1)) = ''1''"
    "NumberToString (Finite 10) = ''10''" "NumberToString (Finite 3) = ''3''"
    by code_simp+
  note closed = capacity_warnings [where workers = scenarioDWorkers and tasks = scenarioDTasks
      and ?e0.0 = "[]" and ids = "\<lambda>n. ''id''", OF h1 h2 h3 h4 h5, unfolded f]
  have "map content (validateCapacityConstraints (\<lambda>n. ''id'') scenarioDWorkers scenarioDTasks [])
     = [(Warning, ''Phase 1 is oversaturated: 10 duration needed, 3 slots available'',
         None, None, Task)]"
    unfolding closed by (simp add: sup dem m)
  with w t show ?thesis
    by (simp only: simp_thms)
qed


end
